theory Spec2Isabelle
  imports Main
begin

section \<open>Thrown values, the console and the trace of calls\<close>

text \<open>
  A value thrown by JavaScript code. The build code only ever passes a caught value on to
  \<^verbatim>\<open>console.error\<close> or interpolates it into a template literal, so a thrown value is
  either an \<^verbatim>\<open>Error\<close> object with its message or any other value, given by the string
  that \<^verbatim>\<open>String(value)\<close> yields.
\<close>

datatype thrown = Error string | Other string

text \<open>The interpolation \<^verbatim>\<open>${error}\<close>: \<^verbatim>\<open>Error.prototype.toString\<close> for an error object.\<close>

fun interpolate :: "thrown \<Rightarrow> string" where
  "interpolate (Error m) = (if m = [] then ''Error'' else ''Error: '' @ m)"
| "interpolate (Other s) = s"

datatype console_arg = Str string | Thrown thrown

datatype log_entry = ConsoleLog "console_arg list" | ConsoleError "console_arg list"

text \<open>
  The trace records, in order, every \<^verbatim>\<open>filesSeenSoFar.add\<close>, \<^verbatim>\<open>file.write\<close> and
  \<^verbatim>\<open>file.dependencies\<close> the builder issues, each with the path string of the file. It is
  written, never read, by the model of the code.
\<close>

datatype call = CallAdd string | CallWrite string | CallDependencies string

record 'w process =
  console :: "log_entry list"
  calls :: "call list"
  world :: 'w

text \<open>
  The interface of \<^verbatim>\<open>File\<close> that \<^verbatim>\<open>build.ts\<close> uses. The class itself is outside the
  build code: \<^verbatim>\<open>file.path.toString()\<close> is a pure function of the file, \<^verbatim>\<open>write\<close> and
  \<^verbatim>\<open>dependencies\<close> act on the world (the file system and everything else outside the
  builder) and either return or throw; a call that throws may have changed the world.
\<close>

record ('f, 'c, 'w) file_class =
  File_path :: "'f \<Rightarrow> string"
  File_write :: "'f \<Rightarrow> 'c \<Rightarrow> 'w \<Rightarrow> (thrown + unit) \<times> 'w"
  File_dependencies :: "'f \<Rightarrow> 'c \<Rightarrow> 'w \<Rightarrow> (thrown + 'f list) \<times> 'w"

section \<open>The graph builder: \<^verbatim>\<open>buildSiteFromFile\<close>\<close>

text \<open>
  \<^verbatim>\<open>buildSiteFromFile(file, settings, filesSeenSoFar)\<close>. The first argument bounds the
  depth of the recursion; \<open>None\<close> means that the bound was reached. The result is
  \<open>Inr ()\<close> for a normal return and \<open>Inl e\<close> when \<open>e\<close> is thrown, with the set of seen
  paths and the process as the call leaves them. \<open>forEach\<close> is the
  \<^verbatim>\<open>dependencies.forEach\<close> loop of the file \<open>file\<close>: its callback catches whatever the
  recursive call throws, so the loop itself always returns normally.
\<close>

fun buildSiteFromFile ::
    "nat \<Rightarrow> ('f, 'c, 'w) file_class \<Rightarrow> 'f \<Rightarrow> 'c \<Rightarrow> string set \<Rightarrow> 'w process
      \<Rightarrow> ((thrown + unit) \<times> string set \<times> 'w process) option"
  and forEach ::
    "nat \<Rightarrow> ('f, 'c, 'w) file_class \<Rightarrow> 'f \<Rightarrow> 'c \<Rightarrow> 'f list \<Rightarrow> string set \<Rightarrow> 'w process
      \<Rightarrow> (string set \<times> 'w process) option"
where
  "buildSiteFromFile 0 C file settings filesSeenSoFar pr = None"
| "buildSiteFromFile (Suc n) C file settings filesSeenSoFar pr =
    (let p = File_path C file in
     if p \<in> filesSeenSoFar then Some (Inr (), filesSeenSoFar, pr)
     else
       let seen1 = insert p filesSeenSoFar;
           pr1 = pr\<lparr>calls := calls pr @ [CallAdd p, CallWrite p]\<rparr>
       in case File_write C file settings (world pr1) of
            (Inl error, w) \<Rightarrow>
              Some (Inl (Error (''Failed to write file '' @ p @ '': '' @ interpolate error)),
                    seen1,
                    pr1\<lparr>world := w,
                        console := console pr1 @
                          [ConsoleError [Str (''[build] Failed to write file '' @ p @ '':''),
                                         Thrown error]]\<rparr>)
          | (Inr _, w) \<Rightarrow>
              let pr2 = pr1\<lparr>world := w, calls := calls pr1 @ [CallDependencies p]\<rparr>
              in (case File_dependencies C file settings (world pr2) of
                    (Inl error, w') \<Rightarrow>
                      Some (Inr (), seen1,
                            pr2\<lparr>world := w',
                                console := console pr2 @
                                  [ConsoleError
                                     [Str (''[build] Failed to get dependencies for '' @ p @ '':''),
                                      Thrown error]]\<rparr>)
                  | (Inr deps, w') \<Rightarrow>
                      (case forEach n C file settings deps seen1 (pr2\<lparr>world := w'\<rparr>) of
                         None \<Rightarrow> None
                       | Some (seen2, pr3) \<Rightarrow> Some (Inr (), seen2, pr3))))"
| "forEach n C file settings [] filesSeenSoFar pr = Some (filesSeenSoFar, pr)"
| "forEach n C file settings (dependencyFile # rest) filesSeenSoFar pr =
    (case buildSiteFromFile n C dependencyFile settings filesSeenSoFar pr of
       None \<Rightarrow> None
     | Some (Inr _, seen1, pr1) \<Rightarrow> forEach n C file settings rest seen1 pr1
     | Some (Inl error, seen1, pr1) \<Rightarrow>
         forEach n C file settings rest seen1
           (pr1\<lparr>console := console pr1 @
              [ConsoleError
                 [Str (''[build] Failed to build dependency '' @ File_path C dependencyFile
                         @ '' of '' @ File_path C file @ '':''),
                  Thrown error]]\<rparr>))"

section \<open>Paths, settings and the store of settings objects\<close>

text \<open>
  Modelled from the spec: the \<^verbatim>\<open>Path\<close> class (\<^verbatim>\<open>./utils/path\<close>) is not among the sources.
  The spec describes it as an immutable, always normalised absolute path value, so a path
  is the string that \<^verbatim>\<open>toString()\<close> returns. Its \<^verbatim>\<open>join\<close> is a parameter of the model.
\<close>

datatype Path = Path string

fun Path_toString :: "Path \<Rightarrow> string" where
  "Path_toString (Path s) = s"

text \<open>
  \<^verbatim>\<open>PageSettings\<close>, with the fields that \<^verbatim>\<open>loadConfig\<close> puts into it. The build code
  reads \<^verbatim>\<open>ignorePaths\<close> through \<^verbatim>\<open>ignorePaths ?? []\<close>, so the field may be missing.
\<close>

record PageSettings =
  siteName :: string
  sourceDir :: Path
  targetDir :: Path
  fallbackSourceDir :: Path
  url :: string
  resourcesDir :: Path
  faviconsDir :: Path
  ignorePaths :: "string list option"
  websocketPath :: string

text \<open>
  JavaScript passes a settings object by reference, and everything that receives the
  reference could assign to its fields. The world of a build therefore holds a store of
  settings objects: the cells below \<open>next_ref\<close> are allocated, a new object takes the cell
  \<open>next_ref\<close>. \<open>files\<close> is the rest of the world (the file system).
\<close>

type_synonym ref = nat

record 'x memory =
  objects :: "ref \<Rightarrow> PageSettings"
  next_ref :: ref
  files :: 'x

text \<open>The object literal \<^verbatim>\<open>{ ...settings, targetDir: t }\<close>: a new object, a copy but for one field.\<close>

definition spread_targetDir :: "ref \<Rightarrow> Path \<Rightarrow> 'x memory \<Rightarrow> ref \<times> 'x memory" where
  "spread_targetDir settings t m =
     (next_ref m,
      m\<lparr>objects := (objects m)(next_ref m := (objects m settings)\<lparr>targetDir := t\<rparr>),
        next_ref := Suc (next_ref m)\<rparr>)"

text \<open>
  What \<^verbatim>\<open>build.ts\<close> imports: the \<^verbatim>\<open>File\<close> class, \<^verbatim>\<open>homePage\<close> (here the whole expression
  \<^verbatim>\<open>homePage(settings).serve(settings).contents\<close>), \<^verbatim>\<open>Path.writeString\<close>, \<^verbatim>\<open>readFile\<close>, which
  yields a file or nothing, and \<^verbatim>\<open>Path.join\<close>.
\<close>

record ('f, 'x) modules =
  File :: "('f, ref, 'x memory) file_class"
  homePage_contents :: "ref \<Rightarrow> 'x memory \<Rightarrow> (thrown + string) \<times> 'x memory"
  writeString :: "Path \<Rightarrow> string \<Rightarrow> 'x memory \<Rightarrow> (thrown + unit) \<times> 'x memory"
  readFile :: "Path \<Rightarrow> ref \<Rightarrow> 'x memory \<Rightarrow> (thrown + 'f option) \<times> 'x memory"
  join :: "Path \<Rightarrow> string \<Rightarrow> Path"

section \<open>The top-level build entry: \<^verbatim>\<open>buildFromPath\<close>\<close>

text \<open>The body of the first \<^verbatim>\<open>try\<close> block, after its \<^verbatim>\<open>console.log\<close>.\<close>

definition writeRootFile ::
    "('f, 'x) modules \<Rightarrow> ref \<Rightarrow> Path \<Rightarrow> 'x memory \<Rightarrow> (thrown + unit) \<times> 'x memory" where
  "writeRootFile H settings rootFile m =
     (case homePage_contents H settings m of
        (Inl error, m1) \<Rightarrow> (Inl error, m1)
      | (Inr contents, m1) \<Rightarrow> writeString H rootFile contents m1)"

text \<open>
  The array literal from which the set \<^verbatim>\<open>filePathsSeenSoFar\<close> is made. In
  \<^verbatim>\<open>sourceDir + "/.git"\<close> the path is converted by its \<^verbatim>\<open>toString\<close>.
\<close>

definition seedPaths :: "Path \<Rightarrow> Path \<Rightarrow> string list option \<Rightarrow> string list" where
  "seedPaths sourceDir' targetDir' ignorePaths' =
     (case ignorePaths' of None \<Rightarrow> [] | Some ps \<Rightarrow> ps) @
     map (\<lambda>p. p @ ''.html'') (case ignorePaths' of None \<Rightarrow> [] | Some ps \<Rightarrow> ps) @
     [Path_toString targetDir',
      Path_toString sourceDir' @ ''/.git'',
      Path_toString sourceDir' @ ''/.direnv'',
      Path_toString sourceDir' @ ''/node_modules'',
      Path_toString targetDir' @ ''.html'',
      Path_toString targetDir' @ ''/index.html'']"

definition sourceIndexMissing :: "Path \<Rightarrow> string" where
  "sourceIndexMissing indexPath =
     ''Failed to read source index.html at '' @ Path_toString indexPath @
     ''. Make sure the file exists and is readable.''"

text \<open>
  \<^verbatim>\<open>buildFromPath(settings)\<close>, with the bound on the depth of the builder's recursion as
  its first argument. A throw of \<^verbatim>\<open>readFile\<close> is caught nowhere and leaves the function as
  it is.
\<close>

definition buildFromPath ::
    "nat \<Rightarrow> ('f, 'x) modules \<Rightarrow> ref \<Rightarrow> 'x memory process
      \<Rightarrow> ((thrown + unit) \<times> 'x memory process) option" where
  "buildFromPath n H settings pr =
    (let sourceDir' = sourceDir (objects (world pr) settings);
         targetDir' = targetDir (objects (world pr) settings);
         ignorePaths' = ignorePaths (objects (world pr) settings);
         rootFile = join H targetDir' ''/index.html'';
         pr1 = pr\<lparr>console := console pr @
                 [ConsoleLog [Str (''[build] Writing root file to '' @ Path_toString rootFile)]]\<rparr>
     in case writeRootFile H settings rootFile (world pr1) of
          (Inl error, m) \<Rightarrow>
            Some (Inl (Error (''Failed to write root index.html: '' @ interpolate error)),
                  pr1\<lparr>world := m,
                      console := console pr1 @
                        [ConsoleError [Str ''[build] Failed to write root index.html:'',
                                       Thrown error]]\<rparr>)
        | (Inr _, m) \<Rightarrow>
            (case spread_targetDir settings (join H targetDir' ''/source'') m of
               (cfg, m1) \<Rightarrow>
                 let indexPath = join H sourceDir' ''/index.html'';
                     pr2 = pr1\<lparr>world := m1,
                               console := console pr1 @
                                 [ConsoleLog [Str (''[build] Reading source index from '' @
                                                   Path_toString indexPath)]]\<rparr>
                 in (case readFile H indexPath cfg (world pr2) of
                       (Inl error, m2) \<Rightarrow> Some (Inl error, pr2\<lparr>world := m2\<rparr>)
                     | (Inr None, m2) \<Rightarrow>
                         Some (Inl (Error (sourceIndexMissing indexPath)),
                               pr2\<lparr>world := m2,
                                   console := console pr2 @
                                     [ConsoleError
                                        [Str (''[build] '' @ sourceIndexMissing indexPath)]]\<rparr>)
                     | (Inr (Some dir), m2) \<Rightarrow>
                         let pr3 = pr2\<lparr>world := m2,
                                   console := console pr2 @
                                     [ConsoleLog [Str ''[build] Starting build from'',
                                                  Str (File_path (File H) dir)]]\<rparr>;
                             filePathsSeenSoFar = set (seedPaths sourceDir' targetDir' ignorePaths')
                         in (case buildSiteFromFile n (File H) dir cfg filePathsSeenSoFar pr3 of
                               None \<Rightarrow> None
                             | Some (Inr _, seen, pr4) \<Rightarrow>
                                 Some (Inr (),
                                       pr4\<lparr>console := console pr4 @
                                         [ConsoleLog [Str ''[build] Build completed successfully!'']]\<rparr>)
                             | Some (Inl error, seen, pr4) \<Rightarrow>
                                 Some (Inl error,
                                       pr4\<lparr>console := console pr4 @
                                         [ConsoleError [Str ''[build] Build failed:'',
                                                        Thrown error]]\<rparr>)))))"

section \<open>Reading the trace\<close>

text \<open>The paths added to the set, and the paths written, in the order of the calls.\<close>

fun adds :: "call list \<Rightarrow> string list" where
  "adds [] = []"
| "adds (CallAdd p # cs) = p # adds cs"
| "adds (c # cs) = adds cs"

fun writes :: "call list \<Rightarrow> string list" where
  "writes [] = []"
| "writes (CallWrite p # cs) = p # writes cs"
| "writes (c # cs) = writes cs"

text \<open>The calls issued between two states of the process.\<close>

definition issued :: "'w process \<Rightarrow> 'w process \<Rightarrow> call list" where
  "issued pr pr' = drop (length (calls pr)) (calls pr')"

text \<open>
  How a run of the builder relates the set and the trace before and after: the trace is
  extended by calls that write exactly the paths they add, each once, and these are the
  paths by which the set has grown, none of which was in it before.
\<close>

definition extends :: "string set \<Rightarrow> 'w process \<Rightarrow> string set \<Rightarrow> 'w process \<Rightarrow> bool" where
  "extends seen pr seen' pr' \<longleftrightarrow>
     (\<exists>cs. calls pr' = calls pr @ cs \<and> writes cs = adds cs \<and> distinct (adds cs) \<and>
           seen' = seen \<union> set (adds cs) \<and> seen \<inter> set (adds cs) = {})"

text \<open>A set of files that holds every dependency that any of its files may return.\<close>

definition closed_under_dependencies :: "('f, 'c, 'w) file_class \<Rightarrow> 'c \<Rightarrow> 'f set \<Rightarrow> bool" where
  "closed_under_dependencies C s F \<longleftrightarrow>
     (\<forall>f w deps w'. f \<in> F \<and> File_dependencies C f s w = (Inr deps, w') \<longrightarrow> set deps \<subseteq> F)"

text \<open>The settings object at \<open>r\<close> is allocated and holds \<open>v\<close>.\<close>

definition holds :: "ref \<Rightarrow> PageSettings \<Rightarrow> 'x memory \<Rightarrow> bool" where
  "holds r v m \<longleftrightarrow> r < next_ref m \<and> objects m r = v"

text \<open>None of the imported operations assigns to the settings object at \<open>r\<close>.\<close>

definition leave_settings :: "('f, 'x) modules \<Rightarrow> ref \<Rightarrow> PageSettings \<Rightarrow> bool" where
  "leave_settings H r v \<longleftrightarrow>
     (\<forall>f c m. holds r v m \<longrightarrow> holds r v (snd (File_write (File H) f c m))) \<and>
     (\<forall>f c m. holds r v m \<longrightarrow> holds r v (snd (File_dependencies (File H) f c m))) \<and>
     (\<forall>c m. holds r v m \<longrightarrow> holds r v (snd (homePage_contents H c m))) \<and>
     (\<forall>p t m. holds r v m \<longrightarrow> holds r v (snd (writeString H p t m))) \<and>
     (\<forall>p c m. holds r v m \<longrightarrow> holds r v (snd (readFile H p c m)))"

section \<open>The TypeScript handler\<close>

text \<open>
  A file object as \<^verbatim>\<open>new TypeScriptFile(filePath, cfg)\<close> makes it: the path and the
  configuration it was created under.
\<close>

record 'c SourceFile =
  path :: Path
  cachedConfig :: 'c

datatype ModuleKind = ModuleKind_CommonJS | ModuleKind_ESNext

datatype ScriptTarget = ScriptTarget_ES5 | ScriptTarget_ESNext

record CompilerOptions =
  module :: ModuleKind
  target :: ScriptTarget

text \<open>
  What the handler takes from outside \<^verbatim>\<open>src/\<close>, for one state of the file system:
  \<^verbatim>\<open>Path.exists\<close>, \<^verbatim>\<open>SourceFile.text\<close>, the output text of \<^verbatim>\<open>ts.transpileModule\<close> and the
  replacement of a path's extension.
\<close>

record 'c typescript_env =
  Path_exists :: "Path \<Rightarrow> bool"
  SourceFile_text :: "'c SourceFile \<Rightarrow> 'c \<Rightarrow> string"
  transpileModule :: "string \<Rightarrow> CompilerOptions \<Rightarrow> string"
  Path_replaceExtension :: "Path \<Rightarrow> string \<Rightarrow> Path"

text \<open>
  Modelled from the spec: \<^verbatim>\<open>wrapFile\<close> (\<^verbatim>\<open>../classes/utils\<close>) is not among the sources. By the
  spec's derivation mechanism, the derived node is located at the source's location with the
  extension replaced, keeps a reference to the source it is derived from, and reads its
  content by applying the transform to that source when the content is asked for.
\<close>

record 'c DerivedNode =
  location :: Path
  derivedFrom :: "'c SourceFile"
  transform :: "'c SourceFile \<Rightarrow> string"

definition wrapFile ::
    "'c typescript_env \<Rightarrow> 'c SourceFile \<Rightarrow> ('c SourceFile \<Rightarrow> string) \<Rightarrow> string \<Rightarrow> 'c DerivedNode" where
  "wrapFile E sourceFile t extension =
     \<lparr>location = Path_replaceExtension E (path sourceFile) extension,
      derivedFrom = sourceFile,
      transform = t\<rparr>"

definition DerivedNode_read :: "'c DerivedNode \<Rightarrow> string" where
  "DerivedNode_read d = transform d (derivedFrom d)"

definition tsToJs :: "'c typescript_env \<Rightarrow> 'c SourceFile \<Rightarrow> 'c \<Rightarrow> string" where
  "tsToJs E tsFile cfg =
     transpileModule E (SourceFile_text E tsFile cfg)
       \<lparr>module = ModuleKind_ESNext, target = ScriptTarget_ESNext\<rparr>"

definition TypeScriptFile_filetypes :: "string list" where
  "TypeScriptFile_filetypes = [''ts'', ''tsx'']"

definition TypeScriptFile_targets :: "string list" where
  "TypeScriptFile_targets = [''js'']"

definition TypeScriptFile_create :: "'c typescript_env \<Rightarrow> Path \<Rightarrow> 'c \<Rightarrow> 'c SourceFile option" where
  "TypeScriptFile_create E filePath cfg =
     (if Path_exists E filePath then Some \<lparr>path = filePath, cachedConfig = cfg\<rparr> else None)"

definition TypeScriptFile_js :: "'c typescript_env \<Rightarrow> 'c SourceFile \<Rightarrow> 'c \<Rightarrow> 'c DerivedNode" where
  "TypeScriptFile_js E this cfg = wrapFile E this (\<lambda>f. tsToJs E f cfg) ''js''"

text \<open>The methods that the class body declares, by name.\<close>

definition TypeScriptFile_methods ::
    "'c typescript_env \<Rightarrow> (string \<times> ('c SourceFile \<Rightarrow> 'c \<Rightarrow> 'c DerivedNode)) list" where
  "TypeScriptFile_methods E = [(''js'', TypeScriptFile_js E)]"

section \<open>A small site\<close>

text \<open>
  Nine files to run the definitions on. The index page and the about page depend on each
  other; the locked style sheet cannot be written; the dependencies of the notes cannot be
  read; two files lie at paths that a build seeds its set with. The gallery depends on the
  locked style sheet and, after it, on a second file at the same path, the mirror, whose
  write would succeed.
\<close>

datatype demo_file =
  Index | About | Locked | Notes | Drafts | Output | Style | Gallery | Mirror

fun demo_path :: "demo_file \<Rightarrow> string" where
  "demo_path Index = ''/site/index.html''"
| "demo_path About = ''/site/about.html''"
| "demo_path Locked = ''/site/locked.css''"
| "demo_path Notes = ''/site/notes.md''"
| "demo_path Drafts = ''/site/drafts''"
| "demo_path Output = ''/site/docs/index.html''"
| "demo_path Style = ''/site/style.css''"
| "demo_path Gallery = ''/site/gallery.html''"
| "demo_path Mirror = ''/site/locked.css''"

fun demo_write :: "demo_file \<Rightarrow> ref \<Rightarrow> string list memory \<Rightarrow> (thrown + unit) \<times> string list memory" where
  "demo_write Locked cfg m = (Inl (Other ''EACCES''), m)"
| "demo_write f cfg m = (Inr (), m\<lparr>files := files m @ [demo_path f]\<rparr>)"

fun demo_dependencies ::
    "demo_file \<Rightarrow> ref \<Rightarrow> string list memory \<Rightarrow> (thrown + demo_file list) \<times> string list memory" where
  "demo_dependencies Index cfg m = (Inr [About, Locked, Drafts, Output, Style], m)"
| "demo_dependencies About cfg m = (Inr [Index, Notes], m)"
| "demo_dependencies Notes cfg m = (Inl (Error ''unreadable''), m)"
| "demo_dependencies Gallery cfg m = (Inr [Locked, Mirror, Style], m)"
| "demo_dependencies f cfg m = (Inr [], m)"

definition demo_File :: "(demo_file, ref, string list memory) file_class" where
  "demo_File =
     \<lparr>File_path = demo_path, File_write = demo_write, File_dependencies = demo_dependencies\<rparr>"

definition demo_modules :: "(demo_file, string list) modules" where
  "demo_modules =
     \<lparr>File = demo_File,
      homePage_contents = (\<lambda>settings m. (Inr ''<html>home</html>'', m)),
      writeString = (\<lambda>p contents m. (Inr (), m\<lparr>files := files m @ [Path_toString p]\<rparr>)),
      readFile = (\<lambda>p cfg m.
        (if Path_toString p = ''/site/index.html'' then Inr (Some Index) else Inr None, m)),
      join = (\<lambda>p s. Path (Path_toString p @ s))\<rparr>"

definition demo_settings :: PageSettings where
  "demo_settings =
     \<lparr>siteName = ''demo'', sourceDir = Path ''/site'', targetDir = Path ''/site/docs'',
      fallbackSourceDir = Path ''/site'', url = ''http://localhost:4242'',
      resourcesDir = Path ''/site/resources'', faviconsDir = Path ''/site/favicons'',
      ignorePaths = Some [''/site/drafts''], websocketPath = ''/__devsocket''\<rparr>"

definition demo_memory :: "string list memory" where
  "demo_memory = \<lparr>objects = (\<lambda>r. demo_settings), next_ref = 1, files = []\<rparr>"

definition demo_process :: "string list memory process" where
  "demo_process = \<lparr>console = [], calls = [], world = demo_memory\<rparr>"

definition demo_typescript :: "unit typescript_env" where
  "demo_typescript =
     \<lparr>Path_exists = (\<lambda>p. p = Path ''/site/app.ts''),
      SourceFile_text = (\<lambda>f cfg. ''let x: number = 1;''),
      transpileModule = (\<lambda>t options. ''let x = 1;''),
      Path_replaceExtension = (\<lambda>p e. Path (''/site/app.'' @ e))\<rparr>"

text \<open>The files that the index page of the small site reaches.\<close>

definition demo_files :: "demo_file set" where
  "demo_files = {Index, About, Locked, Notes, Drafts, Output, Style}"

text \<open>The process after a build of the small site from its settings.\<close>

definition demo_built :: "string list memory process" where
  "demo_built =
     \<lparr>console =
        [ConsoleLog [Str ''[build] Writing root file to /site/docs/index.html''],
         ConsoleLog [Str ''[build] Reading source index from /site/index.html''],
         ConsoleLog [Str ''[build] Starting build from'', Str ''/site/index.html''],
         ConsoleError [Str ''[build] Failed to get dependencies for /site/notes.md:'',
                       Thrown (Error ''unreadable'')],
         ConsoleError [Str ''[build] Failed to write file /site/locked.css:'',
                       Thrown (Other ''EACCES'')],
         ConsoleError
           [Str ''[build] Failed to build dependency /site/locked.css of /site/index.html:'',
            Thrown (Error ''Failed to write file /site/locked.css: EACCES'')],
         ConsoleLog [Str ''[build] Build completed successfully!'']],
      calls =
        [CallAdd ''/site/index.html'', CallWrite ''/site/index.html'',
         CallDependencies ''/site/index.html'',
         CallAdd ''/site/about.html'', CallWrite ''/site/about.html'',
         CallDependencies ''/site/about.html'',
         CallAdd ''/site/notes.md'', CallWrite ''/site/notes.md'',
         CallDependencies ''/site/notes.md'',
         CallAdd ''/site/locked.css'', CallWrite ''/site/locked.css'',
         CallAdd ''/site/style.css'', CallWrite ''/site/style.css'',
         CallDependencies ''/site/style.css''],
      world =
        \<lparr>objects = (\<lambda>r. demo_settings)
                     (1 := demo_settings\<lparr>targetDir := Path ''/site/docs/source''\<rparr>),
         next_ref = 2,
         files = [''/site/docs/index.html'', ''/site/index.html'', ''/site/about.html'',
                  ''/site/notes.md'', ''/site/style.css'']\<rparr>\<rparr>"

text \<open>The process after the about page was built with the index page already seen.\<close>

definition demo_about_built :: "string list memory process" where
  "demo_about_built =
     \<lparr>console = [ConsoleError [Str ''[build] Failed to get dependencies for /site/notes.md:'',
                               Thrown (Error ''unreadable'')]],
      calls = [CallAdd ''/site/about.html'', CallWrite ''/site/about.html'',
               CallDependencies ''/site/about.html'',
               CallAdd ''/site/notes.md'', CallWrite ''/site/notes.md'',
               CallDependencies ''/site/notes.md''],
      world = demo_memory\<lparr>files := [''/site/about.html'', ''/site/notes.md'']\<rparr>\<rparr>"

text \<open>The process after the index page was built with all but the two pages seen.\<close>

definition demo_cycle_built :: "string list memory process" where
  "demo_cycle_built =
     \<lparr>console = [],
      calls = [CallAdd ''/site/index.html'', CallWrite ''/site/index.html'',
               CallDependencies ''/site/index.html'',
               CallAdd ''/site/about.html'', CallWrite ''/site/about.html'',
               CallDependencies ''/site/about.html''],
      world = demo_memory\<lparr>files := [''/site/index.html'', ''/site/about.html'']\<rparr>\<rparr>"

text \<open>
  The process after the loop over the locked style sheet and the style sheet, as dependencies
  of the index page, and after the loop over the dependencies of the gallery.
\<close>

definition demo_index_loop :: "string list memory process" where
  "demo_index_loop =
     \<lparr>console =
        [ConsoleError [Str ''[build] Failed to write file /site/locked.css:'',
                       Thrown (Other ''EACCES'')],
         ConsoleError
           [Str ''[build] Failed to build dependency /site/locked.css of /site/index.html:'',
            Thrown (Error ''Failed to write file /site/locked.css: EACCES'')]],
      calls = [CallAdd ''/site/locked.css'', CallWrite ''/site/locked.css'',
               CallAdd ''/site/style.css'', CallWrite ''/site/style.css'',
               CallDependencies ''/site/style.css''],
      world = demo_memory\<lparr>files := [''/site/style.css'']\<rparr>\<rparr>"

definition demo_gallery_loop :: "string list memory process" where
  "demo_gallery_loop =
     \<lparr>console =
        [ConsoleError [Str ''[build] Failed to write file /site/locked.css:'',
                       Thrown (Other ''EACCES'')],
         ConsoleError
           [Str ''[build] Failed to build dependency /site/locked.css of /site/gallery.html:'',
            Thrown (Error ''Failed to write file /site/locked.css: EACCES'')]],
      calls = [CallAdd ''/site/locked.css'', CallWrite ''/site/locked.css'',
               CallAdd ''/site/style.css'', CallWrite ''/site/style.css'',
               CallDependencies ''/site/style.css''],
      world = demo_memory\<lparr>files := [''/site/style.css'']\<rparr>\<rparr>"

text \<open>The process after the gallery was built with nothing seen.\<close>

definition demo_gallery_built :: "string list memory process" where
  "demo_gallery_built =
     \<lparr>console =
        [ConsoleError [Str ''[build] Failed to write file /site/locked.css:'',
                       Thrown (Other ''EACCES'')],
         ConsoleError
           [Str ''[build] Failed to build dependency /site/locked.css of /site/gallery.html:'',
            Thrown (Error ''Failed to write file /site/locked.css: EACCES'')]],
      calls = [CallAdd ''/site/gallery.html'', CallWrite ''/site/gallery.html'',
               CallDependencies ''/site/gallery.html'',
               CallAdd ''/site/locked.css'', CallWrite ''/site/locked.css'',
               CallAdd ''/site/style.css'', CallWrite ''/site/style.css'',
               CallDependencies ''/site/style.css''],
      world = demo_memory\<lparr>files := [''/site/gallery.html'', ''/site/style.css'']\<rparr>\<rparr>"

text \<open>
  The same site when \<^verbatim>\<open>readFile\<close> resolves the source index to the locked style sheet, so
  that the root of the build is the file that cannot be written.
\<close>

definition demo_locked_modules :: "(demo_file, string list) modules" where
  "demo_locked_modules = demo_modules\<lparr>readFile := (\<lambda>p cfg m. (Inr (Some Locked), m))\<rparr>"

definition demo_locked_memory :: "string list memory" where
  "demo_locked_memory =
     \<lparr>objects = (\<lambda>r. demo_settings)
                 (1 := demo_settings\<lparr>targetDir := Path ''/site/docs/source''\<rparr>),
      next_ref = 2,
      files = [''/site/docs/index.html'']\<rparr>"

definition demo_locked_failed :: "string list memory process" where
  "demo_locked_failed =
     \<lparr>console = [ConsoleError [Str ''[build] Failed to write file /site/locked.css:'',
                               Thrown (Other ''EACCES'')]],
      calls = [CallAdd ''/site/locked.css'', CallWrite ''/site/locked.css''],
      world = demo_memory\<rparr>"

definition demo_locked_aborted :: "string list memory process" where
  "demo_locked_aborted =
     \<lparr>console =
        [ConsoleLog [Str ''[build] Writing root file to /site/docs/index.html''],
         ConsoleLog [Str ''[build] Reading source index from /site/index.html''],
         ConsoleLog [Str ''[build] Starting build from'', Str ''/site/locked.css''],
         ConsoleError [Str ''[build] Failed to write file /site/locked.css:'',
                       Thrown (Other ''EACCES'')],
         ConsoleError [Str ''[build] Build failed:'',
                       Thrown (Error ''Failed to write file /site/locked.css: EACCES'')]],
      calls = [CallAdd ''/site/locked.css'', CallWrite ''/site/locked.css''],
      world = demo_locked_memory\<rparr>"

section \<open>One call of the builder, case by case\<close>

lemma build_seen:
  "File_path C f \<in> seen \<Longrightarrow> buildSiteFromFile (Suc n) C f s seen pr = Some (Inr (), seen, pr)"
  by simp

lemma build_write_throws:
  "File_path C f \<notin> seen \<Longrightarrow> File_write C f s (world pr) = (Inl e, w) \<Longrightarrow>
   buildSiteFromFile (Suc n) C f s seen pr =
     Some (Inl (Error (''Failed to write file '' @ File_path C f @ '': '' @ interpolate e)),
           insert (File_path C f) seen,
           pr\<lparr>calls := calls pr @ [CallAdd (File_path C f), CallWrite (File_path C f)],
              world := w,
              console := console pr @
                [ConsoleError [Str (''[build] Failed to write file '' @ File_path C f @ '':''),
                               Thrown e]]\<rparr>)"
  by (simp add: Let_def)

lemma build_dependencies_throws:
  "File_path C f \<notin> seen \<Longrightarrow> File_write C f s (world pr) = (Inr u, w) \<Longrightarrow>
   File_dependencies C f s w = (Inl e, w') \<Longrightarrow>
   buildSiteFromFile (Suc n) C f s seen pr =
     Some (Inr (), insert (File_path C f) seen,
           pr\<lparr>calls := calls pr @ [CallAdd (File_path C f), CallWrite (File_path C f),
                                    CallDependencies (File_path C f)],
              world := w',
              console := console pr @
                [ConsoleError
                   [Str (''[build] Failed to get dependencies for '' @ File_path C f @ '':''),
                    Thrown e]]\<rparr>)"
  by (simp add: Let_def)

lemma build_dependencies_returns:
  "File_path C f \<notin> seen \<Longrightarrow> File_write C f s (world pr) = (Inr u, w) \<Longrightarrow>
   File_dependencies C f s w = (Inr deps, w') \<Longrightarrow>
   buildSiteFromFile (Suc n) C f s seen pr =
     (case forEach n C f s deps (insert (File_path C f) seen)
             (pr\<lparr>calls := calls pr @ [CallAdd (File_path C f), CallWrite (File_path C f),
                                      CallDependencies (File_path C f)],
                 world := w'\<rparr>) of
        None \<Rightarrow> None
      | Some (seen2, pr3) \<Rightarrow> Some (Inr (), seen2, pr3))"
  by (simp add: Let_def)

declare buildSiteFromFile.simps(2) [simp del]

lemma build_cases [consumes 1, case_names seen write_throws dependencies_throws dependencies_returns]:
  assumes "buildSiteFromFile k C f s seen pr = Some (r, seen', pr')"
  obtains
    n where "k = Suc n" "File_path C f \<in> seen" "r = Inr ()" "seen' = seen" "pr' = pr"
  | n e w where "k = Suc n" "File_path C f \<notin> seen"
      "File_write C f s (world pr) = (Inl e, w)"
      "r = Inl (Error (''Failed to write file '' @ File_path C f @ '': '' @ interpolate e))"
      "seen' = insert (File_path C f) seen"
      "pr' = pr\<lparr>calls := calls pr @ [CallAdd (File_path C f), CallWrite (File_path C f)],
              world := w,
              console := console pr @
                [ConsoleError [Str (''[build] Failed to write file '' @ File_path C f @ '':''),
                               Thrown e]]\<rparr>"
  | n u w e w' where "k = Suc n" "File_path C f \<notin> seen"
      "File_write C f s (world pr) = (Inr u, w)"
      "File_dependencies C f s w = (Inl e, w')" "r = Inr ()"
      "seen' = insert (File_path C f) seen"
      "pr' = pr\<lparr>calls := calls pr @ [CallAdd (File_path C f), CallWrite (File_path C f),
                                    CallDependencies (File_path C f)],
              world := w',
              console := console pr @
                [ConsoleError
                   [Str (''[build] Failed to get dependencies for '' @ File_path C f @ '':''),
                    Thrown e]]\<rparr>"
  | n u w deps w' where "k = Suc n" "File_path C f \<notin> seen"
      "File_write C f s (world pr) = (Inr u, w)"
      "File_dependencies C f s w = (Inr deps, w')" "r = Inr ()"
      "forEach n C f s deps (insert (File_path C f) seen)
             (pr\<lparr>calls := calls pr @ [CallAdd (File_path C f), CallWrite (File_path C f),
                                      CallDependencies (File_path C f)],
                 world := w'\<rparr>) = Some (seen', pr')"
proof (cases k)
  case 0
  with assms show ?thesis by simp
next
  case (Suc n)
  show ?thesis
  proof (cases "File_path C f \<in> seen")
    case True
    with assms Suc have "r = Inr ()" "seen' = seen" "pr' = pr"
      by (simp_all add: build_seen)
    with Suc True show ?thesis by (rule that(1))
  next
    case False
    obtain rw w where W: "File_write C f s (world pr) = (rw, w)" by fastforce
    show ?thesis
    proof (cases rw)
      case (Inl e)
      with assms Suc False W show ?thesis
        by (intro that(2)[of n e w]) (simp_all add: build_write_throws)
    next
      case (Inr u)
      obtain rd w' where D: "File_dependencies C f s w = (rd, w')" by fastforce
      show ?thesis
      proof (cases rd)
        case (Inl e)
        with assms Suc False W \<open>rw = Inr u\<close> D show ?thesis
          by (intro that(3)[of n u w e w']) (simp_all add: build_dependencies_throws)
      next
        case (Inr deps)
        with assms Suc False W \<open>rw = Inr u\<close> D show ?thesis
          by (intro that(4)[of n u w deps w'])
             (simp_all add: build_dependencies_returns split: option.splits)
      qed
    qed
  qed
qed

text \<open>The loop, one dependency at a time.\<close>

lemma forEach_throws:
  "buildSiteFromFile n C d s seen pr = Some (Inl e, seen1, pr1) \<Longrightarrow>
   forEach n C g s (d # rest) seen pr =
     forEach n C g s rest seen1
       (pr1\<lparr>console := console pr1 @
          [ConsoleError
             [Str (''[build] Failed to build dependency '' @ File_path C d
                     @ '' of '' @ File_path C g @ '':''),
              Thrown e]]\<rparr>)"
  by simp

lemma forEach_returns:
  "buildSiteFromFile n C d s seen pr = Some (Inr u, seen1, pr1) \<Longrightarrow>
   forEach n C g s (d # rest) seen pr = forEach n C g s rest seen1 pr1"
  by simp

lemma forEach_Cons_Some:
  assumes "forEach n C g s (d # rest) seen pr = Some (seen', pr')"
  obtains r seen1 pr1 where "buildSiteFromFile n C d s seen pr = Some (r, seen1, pr1)"
  using assms by (auto split: option.splits)

lemma forEach_append:
  "forEach n C g s before seen pr = Some (seen1, pr1) \<Longrightarrow>
   forEach n C g s (before @ rest) seen pr = forEach n C g s rest seen1 pr1"
proof (induction before arbitrary: seen pr)
  case Nil
  then show ?case by simp
next
  case (Cons d before)
  from Cons.prems obtain r seen0 pr0 where
    B: "buildSiteFromFile n C d s seen pr = Some (r, seen0, pr0)"
    by (rule forEach_Cons_Some)
  show ?case
  proof (cases r)
    case (Inl e)
    with B Cons.prems Cons.IH show ?thesis by (simp add: forEach_throws)
  next
    case (Inr u)
    with B Cons.prems Cons.IH show ?thesis by (simp add: forEach_returns)
  qed
qed

section \<open>The set and the trace along a run\<close>

lemma adds_append [simp]: "adds (xs @ ys) = adds xs @ adds ys"
  by (induction xs rule: adds.induct) simp_all

lemma writes_append [simp]: "writes (xs @ ys) = writes xs @ writes ys"
  by (induction xs rule: writes.induct) simp_all

lemma set_writes: "p \<in> set (writes cs) \<longleftrightarrow> CallWrite p \<in> set cs"
  by (induction cs rule: writes.induct) auto

lemma set_adds: "p \<in> set (adds cs) \<longleftrightarrow> CallAdd p \<in> set cs"
  by (induction cs rule: adds.induct) auto

lemma issued_append [simp]: "calls pr' = calls pr @ cs \<Longrightarrow> issued pr pr' = cs"
  by (simp add: issued_def)

lemma extends_refl: "extends seen pr seen pr"
  by (simp add: extends_def)

lemma extends_trans:
  "extends s1 p1 s2 p2 \<Longrightarrow> extends s2 p2 s3 p3 \<Longrightarrow> extends s1 p1 s3 p3"
  by (auto simp: extends_def)

lemma extends_console:
  "extends s1 p1 s2 p2 \<Longrightarrow> extends s1 p1 s2 (p2\<lparr>console := c\<rparr>)"
  by (simp add: extends_def)

lemma extends_subset: "extends seen pr seen' pr' \<Longrightarrow> seen \<subseteq> seen'"
  by (auto simp: extends_def)

lemma extends_issued:
  assumes "extends seen pr seen' pr'"
  shows "calls pr' = calls pr @ issued pr pr'"
    and "writes (issued pr pr') = adds (issued pr pr')"
    and "distinct (adds (issued pr pr'))"
    and "seen' = seen \<union> set (adds (issued pr pr'))"
    and "seen \<inter> set (adds (issued pr pr')) = {}"
  using assms by (auto simp: extends_def)

lemma forEach_extends:
  assumes build: "\<And>f seen pr r seen' pr'.
      buildSiteFromFile n C f s seen pr = Some (r, seen', pr') \<Longrightarrow> extends seen pr seen' pr'"
  shows "forEach n C g s deps seen pr = Some (seen', pr') \<Longrightarrow> extends seen pr seen' pr'"
proof (induction deps arbitrary: seen pr)
  case Nil
  then show ?case by (simp add: extends_refl)
next
  case (Cons d deps)
  from Cons.prems obtain r seen1 pr1 where
    B: "buildSiteFromFile n C d s seen pr = Some (r, seen1, pr1)"
    by (rule forEach_Cons_Some)
  have E1: "extends seen pr seen1 pr1" by (rule build [OF B])
  show ?case
  proof (cases r)
    case (Inl e)
    with Cons.prems B have "forEach n C g s deps seen1
        (pr1\<lparr>console := console pr1 @
              [ConsoleError
                 [Str (''[build] Failed to build dependency '' @ File_path C d
                         @ '' of '' @ File_path C g @ '':''),
                  Thrown e]]\<rparr>) = Some (seen', pr')" by (simp add: forEach_throws)
    from Cons.IH [OF this] extends_console [OF E1] show ?thesis
      by (rule extends_trans [rotated])
  next
    case (Inr u)
    with Cons.prems B have "forEach n C g s deps seen1 pr1 = Some (seen', pr')"
      by (simp add: forEach_returns)
    from E1 Cons.IH [OF this] show ?thesis by (rule extends_trans)
  qed
qed

lemma build_extends:
  "buildSiteFromFile n C f s seen pr = Some (r, seen', pr') \<Longrightarrow> extends seen pr seen' pr'"
proof (induction n arbitrary: f seen pr r seen' pr')
  case 0
  then show ?case by simp
next
  case (Suc n)
  from Suc.prems show ?case
  proof (cases rule: build_cases)
    case (seen m)
    then show ?thesis by (simp add: extends_refl)
  next
    case (write_throws m e w)
    then show ?thesis by (simp add: extends_def)
  next
    case (dependencies_throws m u w e w')
    then show ?thesis by (simp add: extends_def)
  next
    case (dependencies_returns m u w deps w')
    then have "extends (insert (File_path C f) seen)
        (pr\<lparr>calls := calls pr @ [CallAdd (File_path C f), CallWrite (File_path C f),
                                 CallDependencies (File_path C f)], world := w'\<rparr>) seen' pr'"
      using forEach_extends [of n C s] Suc.IH by blast
    moreover have "extends seen pr (insert (File_path C f) seen)
        (pr\<lparr>calls := calls pr @ [CallAdd (File_path C f), CallWrite (File_path C f),
                                 CallDependencies (File_path C f)], world := w'\<rparr>)"
      using dependencies_returns(2) by (simp add: extends_def)
    ultimately show ?thesis by (rule extends_trans [rotated])
  qed
qed

lemma forEach_extends':
  assumes "forEach n C g s deps seen pr = Some (seen', pr')"
  shows "extends seen pr seen' pr'"
proof -
  have "\<And>f seen pr r seen' pr'.
      buildSiteFromFile n C f s seen pr = Some (r, seen', pr') \<Longrightarrow> extends seen pr seen' pr'"
    by (rule build_extends)
  from forEach_extends [OF this assms] show ?thesis .
qed

text \<open>A call on a file leaves the path of the file in the set.\<close>

lemma build_marks:
  assumes "buildSiteFromFile n C f s seen pr = Some (r, seen', pr')"
  shows "File_path C f \<in> seen'"
  using assms
proof (cases rule: build_cases)
  case (dependencies_returns m u w deps w')
  from extends_subset [OF forEach_extends' [OF dependencies_returns(6)]]
  show ?thesis by blast
qed simp_all

text \<open>The loop leaves the path of each of its dependencies in the set.\<close>

lemma forEach_marks:
  "forEach n C g s deps seen pr = Some (seen', pr') \<Longrightarrow> d \<in> set deps \<Longrightarrow>
   File_path C d \<in> seen'"
proof (induction deps arbitrary: seen pr)
  case Nil
  then show ?case by simp
next
  case (Cons x deps)
  from Cons.prems(1) obtain r seen1 pr1 where
    B: "buildSiteFromFile n C x s seen pr = Some (r, seen1, pr1)"
    by (rule forEach_Cons_Some)
  obtain pr2 where R: "forEach n C g s deps seen1 pr2 = Some (seen', pr')"
    using Cons.prems(1) B by (cases r) (simp_all add: forEach_throws forEach_returns)
  show ?case
  proof (cases "d = x")
    case True
    with build_marks [OF B] extends_subset [OF forEach_extends' [OF R]] show ?thesis by blast
  next
    case False
    with Cons.prems(2) Cons.IH [OF R] show ?thesis by simp
  qed
qed

text \<open>The console only grows.\<close>

lemma forEach_console:
  assumes build: "\<And>f seen pr r seen' pr'.
      buildSiteFromFile n C f s seen pr = Some (r, seen', pr') \<Longrightarrow>
      \<exists>es. console pr' = console pr @ es"
  shows "forEach n C g s deps seen pr = Some (seen', pr') \<Longrightarrow>
         \<exists>es. console pr' = console pr @ es"
proof (induction deps arbitrary: seen pr)
  case Nil
  then show ?case by simp
next
  case (Cons d deps)
  from Cons.prems obtain r seen1 pr1 where
    B: "buildSiteFromFile n C d s seen pr = Some (r, seen1, pr1)"
    by (rule forEach_Cons_Some)
  from build [OF B] obtain es where E: "console pr1 = console pr @ es" by blast
  show ?case
  proof (cases r)
    case (Inl e)
    with Cons.prems B Cons.IH E show ?thesis by (fastforce simp: forEach_throws)
  next
    case (Inr u)
    with Cons.prems B Cons.IH E show ?thesis by (fastforce simp: forEach_returns)
  qed
qed

lemma build_console:
  "buildSiteFromFile n C f s seen pr = Some (r, seen', pr') \<Longrightarrow>
   \<exists>es. console pr' = console pr @ es"
proof (induction n arbitrary: f seen pr r seen' pr')
  case 0
  then show ?case by simp
next
  case (Suc n)
  from Suc.prems show ?case
  proof (cases rule: build_cases)
    case (dependencies_returns m u w deps w')
    from dependencies_returns(1) have "\<And>f seen pr r seen' pr'.
      buildSiteFromFile m C f s seen pr = Some (r, seen', pr') \<Longrightarrow>
      \<exists>es. console pr' = console pr @ es"
      using Suc.IH by simp
    from forEach_console [OF this dependencies_returns(6)] show ?thesis by auto
  qed simp_all
qed

lemma forEach_console':
  assumes "forEach n C g s deps seen pr = Some (seen', pr')"
  shows "\<exists>es. console pr' = console pr @ es"
proof -
  have "\<And>f seen pr r seen' pr'.
      buildSiteFromFile n C f s seen pr = Some (r, seen', pr') \<Longrightarrow>
      \<exists>es. console pr' = console pr @ es"
    by (rule build_console)
  from forEach_console [OF this assms] show ?thesis .
qed

text \<open>What the operations of the files preserve of the world, the builder preserves.\<close>

lemma forEach_world:
  assumes build: "\<And>f seen pr r seen' pr'.
      buildSiteFromFile n C f s seen pr = Some (r, seen', pr') \<Longrightarrow> I (world pr) \<Longrightarrow>
      I (world pr')"
  shows "forEach n C g s deps seen pr = Some (seen', pr') \<Longrightarrow> I (world pr) \<Longrightarrow>
         I (world pr')"
proof (induction deps arbitrary: seen pr)
  case Nil
  then show ?case by simp
next
  case (Cons d deps)
  from Cons.prems(1) obtain r seen1 pr1 where
    B: "buildSiteFromFile n C d s seen pr = Some (r, seen1, pr1)"
    by (rule forEach_Cons_Some)
  from build [OF B Cons.prems(2)] have I1: "I (world pr1)" .
  show ?case
  proof (cases r)
    case (Inl e)
    with Cons.prems B Cons.IH I1 show ?thesis by (fastforce simp: forEach_throws)
  next
    case (Inr u)
    with Cons.prems B Cons.IH I1 show ?thesis by (fastforce simp: forEach_returns)
  qed
qed

lemma build_world:
  assumes W: "\<And>f w. I w \<Longrightarrow> I (snd (File_write C f s w))"
    and D: "\<And>f w. I w \<Longrightarrow> I (snd (File_dependencies C f s w))"
  shows "buildSiteFromFile n C f s seen pr = Some (r, seen', pr') \<Longrightarrow> I (world pr) \<Longrightarrow>
         I (world pr')"
proof (induction n arbitrary: f seen pr r seen' pr')
  case 0
  then show ?case by simp
next
  case (Suc n)
  from Suc.prems(1) show ?case
  proof (cases rule: build_cases)
    case (seen m)
    with Suc.prems(2) show ?thesis by simp
  next
    case (write_throws m e w)
    with W [OF Suc.prems(2), of f] show ?thesis by simp
  next
    case (dependencies_throws m u w e w')
    with W [OF Suc.prems(2), of f] have "I w" by simp
    from D [OF this, of f] dependencies_throws show ?thesis by simp
  next
    case (dependencies_returns m u w deps w')
    with W [OF Suc.prems(2), of f] have "I w" by simp
    from D [OF this, of f] dependencies_returns have I': "I w'" by simp
    from dependencies_returns(1) have "\<And>f seen pr r seen' pr'.
      buildSiteFromFile m C f s seen pr = Some (r, seen', pr') \<Longrightarrow> I (world pr) \<Longrightarrow>
      I (world pr')"
      using Suc.IH by simp
    from forEach_world [of m C s I, OF this dependencies_returns(6)] I'
    show ?thesis by simp
  qed
qed

section \<open>Termination on a finite set of paths\<close>

lemma card_Diff_insert_less:
  assumes "finite U" "p \<in> U" "p \<notin> seen" "card (U - seen) < Suc n"
  shows "card (U - insert p seen) < n"
proof -
  have "U - insert p seen = (U - seen) - {p}" by blast
  moreover have "p \<in> U - seen" using assms by blast
  moreover have "finite (U - seen)" using assms by blast
  ultimately have "card (U - insert p seen) = card (U - seen) - 1" by simp
  moreover have "card (U - seen) > 0"
    using \<open>p \<in> U - seen\<close> \<open>finite (U - seen)\<close> card_gt_0_iff by blast
  ultimately show ?thesis using assms(4) by linarith
qed

lemma card_Diff_mono:
  assumes "finite U" "seen \<subseteq> seen'"
  shows "card (U - seen') \<le> card (U - seen)"
  using assms by (intro card_mono) blast+

lemma forEach_returns_Some:
  assumes build: "\<And>f seen pr. f \<in> F \<Longrightarrow> card (File_path C ` F - seen) < n \<Longrightarrow>
      \<exists>r seen' pr'. buildSiteFromFile n C f s seen pr = Some (r, seen', pr')"
    and fin: "finite (File_path C ` F)"
  shows "set deps \<subseteq> F \<Longrightarrow> card (File_path C ` F - seen) < n \<Longrightarrow>
         \<exists>seen' pr'. forEach n C g s deps seen pr = Some (seen', pr')"
proof (induction deps arbitrary: seen pr)
  case Nil
  then show ?case by simp
next
  case (Cons d deps)
  from Cons.prems have "d \<in> F" by simp
  from build [OF this Cons.prems(2)] obtain r seen1 pr1 where
    B: "buildSiteFromFile n C d s seen pr = Some (r, seen1, pr1)" by blast
  from extends_subset [OF build_extends [OF B]] have "seen \<subseteq> seen1" .
  from card_Diff_mono [OF fin this] Cons.prems(2)
  have less: "card (File_path C ` F - seen1) < n" by simp
  from Cons.prems have sub: "set deps \<subseteq> F" by simp
  show ?case
  proof (cases r)
    case (Inl e)
    with B Cons.IH [OF sub less] show ?thesis by (simp add: forEach_throws)
  next
    case (Inr u)
    with B Cons.IH [OF sub less] show ?thesis by (simp add: forEach_returns)
  qed
qed

lemma build_returns_Some:
  assumes fin: "finite (File_path C ` F)"
    and closed: "closed_under_dependencies C s F"
  shows "f \<in> F \<Longrightarrow> card (File_path C ` F - seen) < n \<Longrightarrow>
         \<exists>r seen' pr'. buildSiteFromFile n C f s seen pr = Some (r, seen', pr')"
proof (induction n arbitrary: f seen pr)
  case 0
  then show ?case by simp
next
  case (Suc n)
  show ?case
  proof (cases "File_path C f \<in> seen")
    case True
    then show ?thesis by (simp add: build_seen)
  next
    case False
    obtain rw w where W: "File_write C f s (world pr) = (rw, w)" by fastforce
    show ?thesis
    proof (cases rw)
      case (Inl e)
      with False W show ?thesis by (simp add: build_write_throws)
    next
      case (Inr u)
      obtain rd w' where D: "File_dependencies C f s w = (rd, w')" by fastforce
      show ?thesis
      proof (cases rd)
        case (Inl e)
        with False W \<open>rw = Inr u\<close> D show ?thesis by (simp add: build_dependencies_throws)
      next
        case (Inr deps)
        with closed Suc.prems(1) D have sub: "set deps \<subseteq> F"
          unfolding closed_under_dependencies_def by blast
        from Suc.prems(1) have "File_path C f \<in> File_path C ` F" by simp
        from card_Diff_insert_less [OF fin this False Suc.prems(2)]
        have less: "card (File_path C ` F - insert (File_path C f) seen) < n" .
        have "\<And>f seen pr. f \<in> F \<Longrightarrow> card (File_path C ` F - seen) < n \<Longrightarrow>
            \<exists>r seen' pr'. buildSiteFromFile n C f s seen pr = Some (r, seen', pr')"
          by (rule Suc.IH)
        from forEach_returns_Some [OF this fin sub less]
        obtain seen' pr' where "forEach n C f s deps (insert (File_path C f) seen)
             (pr\<lparr>calls := calls pr @ [CallAdd (File_path C f), CallWrite (File_path C f),
                                      CallDependencies (File_path C f)],
                 world := w'\<rparr>) = Some (seen', pr')" by blast
        with False W \<open>rw = Inr u\<close> D Inr show ?thesis
          by (simp add: build_dependencies_returns)
      qed
    qed
  qed
qed

lemma count_list_distinct:
  "distinct xs \<Longrightarrow> x \<in> set xs \<Longrightarrow> count_list xs x = 1"
  by (induction xs) auto

section \<open>One run of the top-level entry, case by case\<close>

lemma buildFromPath_cases
    [consumes 1, case_names root_fails readFile_throws index_missing builder_called]:
  assumes "buildFromPath n H settings pr = Some (res, pr')"
  obtains
    e m where
      "writeRootFile H settings (join H (targetDir (objects (world pr) settings)) ''/index.html'')
         (world pr) = (Inl e, m)"
      "res = Inl (Error (''Failed to write root index.html: '' @ interpolate e))"
      "calls pr' = calls pr" "world pr' = m"
  | u m cfg m1 e m2 where
      "writeRootFile H settings (join H (targetDir (objects (world pr) settings)) ''/index.html'')
         (world pr) = (Inr u, m)"
      "spread_targetDir settings
         (join H (targetDir (objects (world pr) settings)) ''/source'') m = (cfg, m1)"
      "readFile H (join H (sourceDir (objects (world pr) settings)) ''/index.html'') cfg m1 =
         (Inl e, m2)"
      "res = Inl e" "calls pr' = calls pr" "world pr' = m2"
  | u m cfg m1 m2 where
      "writeRootFile H settings (join H (targetDir (objects (world pr) settings)) ''/index.html'')
         (world pr) = (Inr u, m)"
      "spread_targetDir settings
         (join H (targetDir (objects (world pr) settings)) ''/source'') m = (cfg, m1)"
      "readFile H (join H (sourceDir (objects (world pr) settings)) ''/index.html'') cfg m1 =
         (Inr None, m2)"
      "res = Inl (Error (sourceIndexMissing
                 (join H (sourceDir (objects (world pr) settings)) ''/index.html'')))"
      "calls pr' = calls pr" "world pr' = m2"
  | u m cfg m1 dir m2 pr3 seen' pr4 where
      "writeRootFile H settings (join H (targetDir (objects (world pr) settings)) ''/index.html'')
         (world pr) = (Inr u, m)"
      "spread_targetDir settings
         (join H (targetDir (objects (world pr) settings)) ''/source'') m = (cfg, m1)"
      "readFile H (join H (sourceDir (objects (world pr) settings)) ''/index.html'') cfg m1 =
         (Inr (Some dir), m2)"
      "calls pr3 = calls pr" "world pr3 = m2"
      "buildSiteFromFile n (File H) dir cfg
         (set (seedPaths (sourceDir (objects (world pr) settings))
                (targetDir (objects (world pr) settings))
                (ignorePaths (objects (world pr) settings)))) pr3 = Some (res, seen', pr4)"
      "calls pr' = calls pr4" "world pr' = world pr4"
proof -
  let ?v = "objects (world pr) settings"
  obtain rw m where W: "writeRootFile H settings (join H (targetDir ?v) ''/index.html'')
         (world pr) = (rw, m)" by fastforce
  show ?thesis
  proof (cases rw)
    case (Inl e)
    with assms W show ?thesis
      by (intro that(1)[of e m]) (auto simp: buildFromPath_def Let_def)
  next
    case (Inr u)
    note rw = this
    obtain cfg m1 where S: "spread_targetDir settings (join H (targetDir ?v) ''/source'') m
        = (cfg, m1)" by fastforce
    obtain rr m2 where R: "readFile H (join H (sourceDir ?v) ''/index.html'') cfg m1 = (rr, m2)"
      by fastforce
    show ?thesis
    proof (cases rr)
      case (Inl e)
      with assms W rw S R show ?thesis
        by (intro that(2)[of u m cfg m1 e m2]) (auto simp: buildFromPath_def Let_def)
    next
      case (Inr found)
      note rr = this
      show ?thesis
      proof (cases found)
        case None
        with assms W rw S R rr show ?thesis
          by (intro that(3)[of u m cfg m1 m2]) (auto simp: buildFromPath_def Let_def)
      next
        case (Some dir)
        let ?pr3 = "pr\<lparr>world := m2, console := console pr @
                 [ConsoleLog [Str (''[build] Writing root file to '' @
                    Path_toString (join H (targetDir ?v) ''/index.html''))],
                  ConsoleLog [Str (''[build] Reading source index from '' @
                    Path_toString (join H (sourceDir ?v) ''/index.html''))],
                  ConsoleLog [Str ''[build] Starting build from'',
                              Str (File_path (File H) dir)]]\<rparr>"
        from assms W rw S R rr Some obtain rb seen' pr4 where
          B: "buildSiteFromFile n (File H) dir cfg
               (set (seedPaths (sourceDir ?v) (targetDir ?v) (ignorePaths ?v))) ?pr3
             = Some (rb, seen', pr4)"
          by (auto simp: buildFromPath_def Let_def split: option.splits)
        show ?thesis
        proof (cases rb)
          case (Inl e)
          with assms W rw S R rr Some B show ?thesis
            by (intro that(4)[of u m cfg m1 dir m2 ?pr3 seen' pr4])
               (auto simp: buildFromPath_def Let_def)
        next
          case (Inr u')
          with assms W rw S R rr Some B show ?thesis
            by (intro that(4)[of u m cfg m1 dir m2 ?pr3 seen' pr4])
               (auto simp: buildFromPath_def Let_def)
        qed
      qed
    qed
  qed
qed

section \<open>What the seeded set keeps out of a build\<close>

lemma build_issued:
  assumes "buildSiteFromFile n C f s seen pr = Some (r, seen', pr')"
  shows "distinct (adds (issued pr pr'))" and "distinct (writes (issued pr pr'))"
    and "set (adds (issued pr pr')) \<inter> seen = {}"
    and "set (writes (issued pr pr')) \<inter> seen = {}"
    and "seen \<subseteq> seen'"
proof -
  from build_extends [OF assms] have E: "extends seen pr seen' pr'" .
  from extends_issued(3) [OF E] show "distinct (adds (issued pr pr'))" .
  with extends_issued(2) [OF E] show "distinct (writes (issued pr pr'))" by simp
  from extends_issued(5) [OF E] show A: "set (adds (issued pr pr')) \<inter> seen = {}" by blast
  with extends_issued(2) [OF E] show "set (writes (issued pr pr')) \<inter> seen = {}" by simp
  from extends_subset [OF E] show "seen \<subseteq> seen'" .
qed

lemma issued_same [simp]: "calls pr' = calls pr \<Longrightarrow> issued pr pr' = []"
  by (simp add: issued_def)

lemma issued_cong: "calls pr = calls prA \<Longrightarrow> calls pr' = calls prB \<Longrightarrow>
    issued pr pr' = issued prA prB"
  by (simp add: issued_def)

text \<open>
  Every call that a run of \<^verbatim>\<open>buildFromPath\<close> issues comes from its one call of the builder,
  which starts from the seeded set.
\<close>

lemma buildFromPath_issued:
  assumes "buildFromPath n H settings pr = Some (res, pr')"
  shows "issued pr pr' = [] \<or>
         (\<exists>dir cfg pr3 seen' pr4.
            buildSiteFromFile n (File H) dir cfg
              (set (seedPaths (sourceDir (objects (world pr) settings))
                     (targetDir (objects (world pr) settings))
                     (ignorePaths (objects (world pr) settings)))) pr3 = Some (res, seen', pr4) \<and>
            issued pr pr' = issued pr3 pr4)"
  using assms
proof (cases rule: buildFromPath_cases)
  case (root_fails e m)
  then have "issued pr pr' = []" by simp
  then show ?thesis ..
next
  case (readFile_throws u m cfg m1 e m2)
  then have "issued pr pr' = []" by simp
  then show ?thesis ..
next
  case (index_missing u m cfg m1 m2)
  then have "issued pr pr' = []" by simp
  then show ?thesis ..
next
  case (builder_called u m cfg m1 dir m2 pr3 seen' pr4)
  have "issued pr pr' = issued pr3 pr4"
    by (rule issued_cong) (simp_all add: builder_called(4,7))
  with builder_called(6) show ?thesis by blast
qed

lemma buildFromPath_seeded:
  assumes "buildFromPath n H settings pr = Some (res, pr')"
    and "p \<in> set (seedPaths (sourceDir (objects (world pr) settings))
                     (targetDir (objects (world pr) settings))
                     (ignorePaths (objects (world pr) settings)))"
  shows "CallWrite p \<notin> set (issued pr pr')"
proof -
  from buildFromPath_issued [OF assms(1)] show ?thesis
  proof
    assume "issued pr pr' = []"
    then show ?thesis by simp
  next
    assume "\<exists>dir cfg pr3 seen' pr4.
            buildSiteFromFile n (File H) dir cfg
              (set (seedPaths (sourceDir (objects (world pr) settings))
                     (targetDir (objects (world pr) settings))
                     (ignorePaths (objects (world pr) settings)))) pr3 = Some (res, seen', pr4) \<and>
            issued pr pr' = issued pr3 pr4"
    then obtain dir cfg pr3 seen' pr4 where
      B: "buildSiteFromFile n (File H) dir cfg
              (set (seedPaths (sourceDir (objects (world pr) settings))
                     (targetDir (objects (world pr) settings))
                     (ignorePaths (objects (world pr) settings)))) pr3 = Some (res, seen', pr4)"
      and I: "issued pr pr' = issued pr3 pr4" by blast
    from build_issued(4) [OF B] assms(2) I show ?thesis
      by (auto simp: set_writes [symmetric])
  qed
qed

section \<open>The settings object\<close>

lemma spread_targetDir_holds:
  assumes "holds r v m"
  shows "fst (spread_targetDir r t m) \<noteq> r"
    and "holds r v (snd (spread_targetDir r t m))"
    and "objects (snd (spread_targetDir r t m)) (fst (spread_targetDir r t m)) = v\<lparr>targetDir := t\<rparr>"
  using assms by (auto simp: holds_def spread_targetDir_def)

lemma writeRootFile_holds:
  assumes "leave_settings H r v" and "holds r v m"
  shows "holds r v (snd (writeRootFile H c rootFile m))"
proof -
  from assms have 1: "holds r v (snd (homePage_contents H c m))"
    by (simp add: leave_settings_def)
  obtain rc m1 where C: "homePage_contents H c m = (rc, m1)" by fastforce
  show ?thesis
  proof (cases rc)
    case (Inl e)
    with C 1 show ?thesis by (simp add: writeRootFile_def)
  next
    case (Inr contents)
    from assms(1) 1 C have "holds r v (snd (writeString H rootFile contents m1))"
      by (simp add: leave_settings_def)
    with C Inr show ?thesis by (simp add: writeRootFile_def)
  qed
qed

lemma build_holds:
  fixes H :: "('f, 'x) modules"
  assumes L: "leave_settings H r v"
    and B: "buildSiteFromFile n (File H) f c seen pr = Some (res, seen', pr')"
    and I: "holds r v (world pr)"
  shows "holds r v (world pr')"
proof (rule build_world [where I = "holds r v", OF _ _ B I])
  fix g :: 'f and w :: "'x memory"
  assume "holds r v w"
  with L show "holds r v (snd (File_write (File H) g c w))" by (simp add: leave_settings_def)
next
  fix g :: 'f and w :: "'x memory"
  assume "holds r v w"
  with L show "holds r v (snd (File_dependencies (File H) g c w))"
    by (simp add: leave_settings_def)
qed

lemma buildFromPath_holds:
  assumes L: "leave_settings H r v"
    and R: "buildFromPath n H r pr = Some (res, pr')"
    and I: "holds r v (world pr)"
  shows "holds r v (world pr')"
  using R
proof (cases rule: buildFromPath_cases)
  case (root_fails e m)
  with writeRootFile_holds [OF L I, of r "join H (targetDir (objects (world pr) r)) ''/index.html''"]
  show ?thesis by simp
next
  case (readFile_throws u m cfg m1 e m2)
  with writeRootFile_holds [OF L I, of r "join H (targetDir (objects (world pr) r)) ''/index.html''"]
  have "holds r v m" by simp
  from spread_targetDir_holds(2) [OF this, of "join H (targetDir (objects (world pr) r)) ''/source''"]
    readFile_throws(2)
  have "holds r v m1" by simp
  with L have "holds r v (snd (readFile H
      (join H (sourceDir (objects (world pr) r)) ''/index.html'') cfg m1))"
    by (simp add: leave_settings_def)
  with readFile_throws show ?thesis by simp
next
  case (index_missing u m cfg m1 m2)
  with writeRootFile_holds [OF L I, of r "join H (targetDir (objects (world pr) r)) ''/index.html''"]
  have "holds r v m" by simp
  from spread_targetDir_holds(2) [OF this, of "join H (targetDir (objects (world pr) r)) ''/source''"]
    index_missing(2)
  have "holds r v m1" by simp
  with L have "holds r v (snd (readFile H
      (join H (sourceDir (objects (world pr) r)) ''/index.html'') cfg m1))"
    by (simp add: leave_settings_def)
  with index_missing show ?thesis by simp
next
  case (builder_called u m cfg m1 dir m2 pr3 seen' pr4)
  with writeRootFile_holds [OF L I, of r "join H (targetDir (objects (world pr) r)) ''/index.html''"]
  have "holds r v m" by simp
  from spread_targetDir_holds(2) [OF this, of "join H (targetDir (objects (world pr) r)) ''/source''"]
    builder_called(2)
  have "holds r v m1" by simp
  with L have "holds r v (snd (readFile H
      (join H (sourceDir (objects (world pr) r)) ''/index.html'') cfg m1))"
    by (simp add: leave_settings_def)
  with builder_called have "holds r v (world pr3)" by simp
  from build_holds [OF L builder_called(6) this] builder_called(8) show ?thesis by simp
qed

lemma buildFromPath_root_write_throws:
  assumes "v = objects (world pr) settings"
    and "writeRootFile H settings (join H (targetDir v) ''/index.html'') (world pr) = (Inr u, m)"
    and "spread_targetDir settings (join H (targetDir v) ''/source'') m = (cfg, m1)"
    and "readFile H (join H (sourceDir v) ''/index.html'') cfg m1 = (Inr (Some dir), m2)"
    and "File_path (File H) dir \<notin> set (seedPaths (sourceDir v) (targetDir v) (ignorePaths v))"
    and "File_write (File H) dir cfg m2 = (Inl e, w)"
  shows "\<exists>pr'. buildFromPath (Suc n) H settings pr =
           Some (Inl (Error (''Failed to write file '' @ File_path (File H) dir @ '': '' @
                             interpolate e)), pr') \<and>
         issued pr pr' = [CallAdd (File_path (File H) dir), CallWrite (File_path (File H) dir)] \<and>
         world pr' = w"
  using assms
  by (simp add: buildFromPath_def Let_def build_write_throws issued_def)

section \<open>Writes within one loop and one run\<close>

text \<open>Each unseen dependency of a loop is written exactly once in the loop.\<close>

lemma forEach_writes_once:
  assumes F: "forEach n C g s deps seen pr = Some (seen', pr')"
    and d: "d \<in> set deps" and unseen: "File_path C d \<notin> seen"
  shows "File_path C d \<in> seen'"
    and "count_list (writes (issued pr pr')) (File_path C d) = 1"
proof -
  from forEach_extends' [OF F] have E: "extends seen pr seen' pr'" .
  from forEach_marks [OF F d] show M: "File_path C d \<in> seen'" .
  with unseen extends_issued(4) [OF E]
  have "File_path C d \<in> set (adds (issued pr pr'))" by blast
  with extends_issued(2,3) [OF E]
  show "count_list (writes (issued pr pr')) (File_path C d) = 1"
    by (simp add: count_list_distinct)
qed

text \<open>Once a write of a path is issued, the run issues no other write of it.\<close>

lemma distinct_writes_split:
  assumes "distinct (writes cs)" and "cs = xs @ CallWrite q # ys"
  shows "CallWrite q \<notin> set xs" and "CallWrite q \<notin> set ys"
  using assms by (auto simp: set_writes [symmetric])

lemma build_write_not_repeated:
  assumes B: "buildSiteFromFile n C f s seen pr = Some (r, seen', pr')"
    and split: "issued pr pr' = xs @ CallWrite q # ys"
  shows "q \<in> seen'" and "CallWrite q \<notin> set xs" and "CallWrite q \<notin> set ys"
proof -
  from build_extends [OF B] have E: "extends seen pr seen' pr'" .
  from split have "q \<in> set (writes (issued pr pr'))" by simp
  with extends_issued(2,4) [OF E] show "q \<in> seen'" by simp
  from build_issued(2) [OF B] split
  show "CallWrite q \<notin> set xs" and "CallWrite q \<notin> set ys"
    by (rule distinct_writes_split)+
qed

lemma buildFromPath_write_not_repeated:
  assumes R: "buildFromPath n H settings pr = Some (res, pr')"
    and split: "issued pr pr' = xs @ CallWrite q # ys"
  shows "CallWrite q \<notin> set xs" and "CallWrite q \<notin> set ys"
proof -
  from buildFromPath_issued [OF R] have "distinct (writes (issued pr pr'))"
  proof
    assume "issued pr pr' = []"
    then show ?thesis by simp
  next
    assume "\<exists>dir cfg pr3 seen' pr4.
            buildSiteFromFile n (File H) dir cfg
              (set (seedPaths (sourceDir (objects (world pr) settings))
                     (targetDir (objects (world pr) settings))
                     (ignorePaths (objects (world pr) settings)))) pr3 = Some (res, seen', pr4) \<and>
            issued pr pr' = issued pr3 pr4"
    then show ?thesis using build_issued(2) by fastforce
  qed
  from this split show "CallWrite q \<notin> set xs" and "CallWrite q \<notin> set ys"
    by (rule distinct_writes_split)+
qed

text \<open>On a finite set of paths the loop returns as the call does.\<close>

lemma forEach_returns_Some':
  assumes fin: "finite (File_path C ` F)"
    and closed: "closed_under_dependencies C s F"
    and sub: "set deps \<subseteq> F"
    and fuel: "card (File_path C ` F - seen) < n"
  shows "\<exists>seen' pr'. forEach n C g s deps seen pr = Some (seen', pr')"
proof -
  have "\<And>f seen pr. f \<in> F \<Longrightarrow> card (File_path C ` F - seen) < n \<Longrightarrow>
      \<exists>r seen' pr'. buildSiteFromFile n C f s seen pr = Some (r, seen', pr')"
    by (rule build_returns_Some [OF fin closed])
  from forEach_returns_Some [OF this fin sub fuel] show ?thesis .
qed

text \<open>What a loop leaves of the dependencies it was given.\<close>

lemma forEach_rest_built:
  assumes F: "forEach n C g s rest seenB prB' = Some (seen', pr')"
    and same: "calls prB' = calls prB"
    and x: "x \<in> set rest"
  shows "File_path C x \<in> seen'"
    and "File_path C x \<notin> seenB \<Longrightarrow> CallWrite (File_path C x) \<in> set (issued prB pr')"
proof -
  from forEach_marks [OF F x] show M: "File_path C x \<in> seen'" .
  assume U: "File_path C x \<notin> seenB"
  from forEach_extends' [OF F] have E: "extends seenB prB' seen' pr'" .
  from same have I: "issued prB pr' = issued prB' pr'" by (simp add: issued_def)
  from M U extends_issued(4) [OF E]
  have "File_path C x \<in> set (adds (issued prB' pr'))" by blast
  with extends_issued(2) [OF E] I
  show "CallWrite (File_path C x) \<in> set (issued prB pr')"
    by (simp add: set_writes [symmetric])
qed

text \<open>A call throws only when the write of its own file has thrown.\<close>

lemma build_throws_only_own_write:
  assumes "buildSiteFromFile n C f s seen pr = Some (Inl e, seen', pr')"
  shows "File_path C f \<notin> seen \<and>
         (\<exists>e0 w0. File_write C f s (world pr) = (Inl e0, w0) \<and>
            e = Error (''Failed to write file '' @ File_path C f @ '': '' @ interpolate e0))"
  using assms by (cases rule: build_cases) auto

lemma build_returns_when_written:
  assumes "buildSiteFromFile n C f s seen pr = Some (r, seen', pr')"
    and "File_write C f s (world pr) = (Inr u, w)"
  shows "r = Inr ()"
  using assms by (cases rule: build_cases) auto

lemma forEach_after_throw:
  assumes B: "buildSiteFromFile k C d s seenC prC = Some (Inl eC, seenD, prD)"
    and fin: "finite (File_path C ` F)"
    and closed: "closed_under_dependencies C s F"
    and sub: "set rest \<subseteq> F"
    and fuel: "card (File_path C ` F - seenD) < k"
  shows "\<exists>seenE prE.
           forEach k C g s (d # rest) seenC prC = Some (seenE, prE) \<and>
           ConsoleError
             [Str (''[build] Failed to build dependency '' @ File_path C d
                     @ '' of '' @ File_path C g @ '':''),
              Thrown eC] \<in> set (console prE) \<and>
           (\<forall>x \<in> set rest.
              File_path C x \<in> seenE \<and>
              (File_path C x \<notin> seenD \<longrightarrow>
                 CallWrite (File_path C x) \<in> set (issued prD prE)))"
proof -
  let ?entry = "ConsoleError
             [Str (''[build] Failed to build dependency '' @ File_path C d
                     @ '' of '' @ File_path C g @ '':''),
              Thrown eC]"
  let ?prD = "prD\<lparr>console := console prD @ [?entry]\<rparr>"
  from forEach_returns_Some' [OF fin closed sub fuel, of g ?prD]
  obtain seenE prE where R: "forEach k C g s rest seenD ?prD = Some (seenE, prE)" by blast
  with forEach_throws [OF B, of g rest]
  have 1: "forEach k C g s (d # rest) seenC prC = Some (seenE, prE)" by simp
  from forEach_console' [OF R] have 2: "?entry \<in> set (console prE)" by auto
  have same: "calls ?prD = calls prD" by simp
  have 3: "File_path C x \<in> seenE \<and>
              (File_path C x \<notin> seenD \<longrightarrow>
                 CallWrite (File_path C x) \<in> set (issued prD prE))"
    if "x \<in> set rest" for x
    using forEach_rest_built [OF R same that] by blast
  from 1 2 3 show ?thesis by blast
qed

section \<open>Runs of the small site\<close>

lemmas demo_defs = demo_File_def demo_process_def demo_memory_def

lemma demo_run: "buildFromPath 3 demo_modules 0 demo_process = Some (Inr (), demo_built)"
  by (simp add: buildFromPath_def demo_modules_def demo_defs demo_settings_def demo_built_def
      writeRootFile_def spread_targetDir_def seedPaths_def Let_def
      buildSiteFromFile.simps(2) numeral_3_eq_3)


lemma demo_about:
  "buildSiteFromFile (Suc (Suc 0)) demo_File About 0 {''/site/index.html''} demo_process =
     Some (Inr (), {''/site/notes.md'', ''/site/about.html'', ''/site/index.html''},
           \<lparr>console = [ConsoleError [Str ''[build] Failed to get dependencies for /site/notes.md:'',
                                     Thrown (Error ''unreadable'')]],
            calls = [CallAdd ''/site/about.html'', CallWrite ''/site/about.html'',
                     CallDependencies ''/site/about.html'',
                     CallAdd ''/site/notes.md'', CallWrite ''/site/notes.md'',
                     CallDependencies ''/site/notes.md''],
            world = demo_memory\<lparr>files := [''/site/about.html'', ''/site/notes.md'']\<rparr>\<rparr>)"
  by (simp add: demo_defs Let_def buildSiteFromFile.simps(2) insert_commute)

lemma demo_issued:
  "issued demo_process demo_built =
     [CallAdd ''/site/index.html'', CallWrite ''/site/index.html'',
      CallDependencies ''/site/index.html'',
      CallAdd ''/site/about.html'', CallWrite ''/site/about.html'',
      CallDependencies ''/site/about.html'',
      CallAdd ''/site/notes.md'', CallWrite ''/site/notes.md'',
      CallDependencies ''/site/notes.md'',
      CallAdd ''/site/locked.css'', CallWrite ''/site/locked.css'',
      CallAdd ''/site/style.css'', CallWrite ''/site/style.css'',
      CallDependencies ''/site/style.css'']"
  by (simp add: issued_def demo_process_def demo_built_def)

lemma demo_about':
  "buildSiteFromFile (Suc (Suc 0)) demo_File About 0 {''/site/index.html''} demo_process =
     Some (Inr (), {''/site/notes.md'', ''/site/about.html'', ''/site/index.html''},
           demo_about_built)"
  using demo_about by (simp add: demo_about_built_def)

lemma demo_write_memory:
  "objects (snd (demo_write f c m)) = objects m"
  "next_ref (snd (demo_write f c m)) = next_ref m"
  by (cases f; simp)+

lemma demo_dependencies_memory: "snd (demo_dependencies f c m) = m"
  by (cases f) simp_all

lemma demo_leave_settings: "leave_settings demo_modules 0 demo_settings"
  by (simp add: leave_settings_def demo_modules_def demo_File_def holds_def
      demo_write_memory demo_dependencies_memory)

lemma demo_closed: "closed_under_dependencies demo_File 0 demo_files"
  unfolding closed_under_dependencies_def demo_files_def demo_File_def
  by (auto simp: demo_files_def)

lemma demo_cycle_card:
  "card (File_path demo_File ` demo_files -
      {''/site/locked.css'', ''/site/notes.md'', ''/site/drafts'', ''/site/docs/index.html'',
       ''/site/style.css''}) < 3"
  by (simp add: demo_File_def demo_files_def)

lemma demo_cycle_run:
  "buildSiteFromFile 3 demo_File Index 0
      {''/site/locked.css'', ''/site/notes.md'', ''/site/drafts'', ''/site/docs/index.html'',
       ''/site/style.css''} demo_process =
     Some (Inr (),
       {''/site/about.html'', ''/site/index.html'',
        ''/site/locked.css'', ''/site/notes.md'', ''/site/drafts'', ''/site/docs/index.html'',
        ''/site/style.css''}, demo_cycle_built)"
  by (simp add: demo_defs demo_cycle_built_def Let_def buildSiteFromFile.simps(2)
      numeral_3_eq_3 insert_commute)

lemma demo_locked_run:
  "buildFromPath (Suc 0) demo_locked_modules 0 demo_process =
     Some (Inl (Error ''Failed to write file /site/locked.css: EACCES''), demo_locked_aborted)"
  by (simp add: buildFromPath_def demo_locked_modules_def demo_modules_def demo_defs
      demo_settings_def demo_locked_aborted_def demo_locked_memory_def
      writeRootFile_def spread_targetDir_def seedPaths_def Let_def
      buildSiteFromFile.simps(2))

lemma demo_gallery_loop_run:
  "forEach (Suc 0) demo_File Gallery 0 [Locked, Mirror, Style] {} demo_process =
     Some ({''/site/style.css'', ''/site/locked.css''}, demo_gallery_loop)"
  by (simp add: demo_defs demo_gallery_loop_def Let_def buildSiteFromFile.simps(2)
      insert_commute)

lemma demo_gallery_run:
  "buildSiteFromFile (Suc (Suc 0)) demo_File Gallery 0 {} demo_process =
     Some (Inr (), {''/site/style.css'', ''/site/locked.css'', ''/site/gallery.html''},
           demo_gallery_built)"
  by (simp add: demo_defs demo_gallery_built_def Let_def buildSiteFromFile.simps(2)
      insert_commute)

lemma demo_index_loop_run:
  "forEach (Suc (Suc 0)) demo_File Index 0 (Locked # [Style]) {} demo_process =
     Some ({''/site/style.css'', ''/site/locked.css''}, demo_index_loop)"
  by (simp add: demo_defs demo_index_loop_def Let_def buildSiteFromFile.simps(2)
      insert_commute)

lemma demo_locked_failed_run:
  "buildSiteFromFile (Suc 0) demo_File Locked 0 {} demo_process =
     Some (Inl (Error ''Failed to write file /site/locked.css: EACCES''),
           {''/site/locked.css''}, demo_locked_failed)"
  by (simp add: demo_defs demo_locked_failed_def Let_def buildSiteFromFile.simps(2))

lemma demo_gallery_issued:
  "issued demo_process demo_gallery_built =
     [CallAdd ''/site/gallery.html'', CallWrite ''/site/gallery.html'',
      CallDependencies ''/site/gallery.html'', CallAdd ''/site/locked.css''] @
     CallWrite ''/site/locked.css'' #
     [CallAdd ''/site/style.css'', CallWrite ''/site/style.css'',
      CallDependencies ''/site/style.css'']"
  by (simp add: issued_def demo_process_def demo_gallery_built_def)

lemma demo_issued_split:
  "issued demo_process demo_built =
     [CallAdd ''/site/index.html'', CallWrite ''/site/index.html'',
      CallDependencies ''/site/index.html'',
      CallAdd ''/site/about.html'', CallWrite ''/site/about.html'',
      CallDependencies ''/site/about.html'',
      CallAdd ''/site/notes.md'', CallWrite ''/site/notes.md'',
      CallDependencies ''/site/notes.md'',
      CallAdd ''/site/locked.css''] @
     CallWrite ''/site/locked.css'' #
     [CallAdd ''/site/style.css'', CallWrite ''/site/style.css'',
      CallDependencies ''/site/style.css'']"
  by (simp add: demo_issued)

lemma demo_style_closed: "closed_under_dependencies demo_File 0 {Style}"
  by (simp add: closed_under_dependencies_def demo_File_def)

section \<open>The guard of the set of seen paths\<close>

text \<open>One call of the builder: the guard, the mark and the first two calls.\<close>

lemma guard_and_mark:
  "(File_path C f \<in> seen \<longrightarrow>
      buildSiteFromFile (Suc n) C f s seen pr = Some (Inr (), seen, pr)) \<and>
   (File_path C f \<notin> seen \<and> buildSiteFromFile k C f s seen pr = Some (r, seen', pr') \<longrightarrow>
      File_path C f \<in> seen' \<and>
      take 2 (issued pr pr') = [CallAdd (File_path C f), CallWrite (File_path C f)]) \<and>
   (File_path C f \<notin> seen \<and> File_write C f s (world pr) = (Inl e, w) \<longrightarrow>
      (\<exists>pr'. buildSiteFromFile (Suc n) C f s seen pr =
               Some (Inl (Error (''Failed to write file '' @ File_path C f @ '': '' @
                                  interpolate e)),
                     insert (File_path C f) seen, pr') \<and>
             issued pr pr' = [CallAdd (File_path C f), CallWrite (File_path C f)])) \<and>
   (p \<in> seenB \<and> buildSiteFromFile m C g s seenB prB = Some (rB, seenC, prC) \<longrightarrow>
      p \<in> seenC \<and> CallWrite p \<notin> set (issued prB prC))"
proof (intro conjI impI)
  assume "File_path C f \<in> seen"
  then show "buildSiteFromFile (Suc n) C f s seen pr = Some (Inr (), seen, pr)"
    by (rule build_seen)
next
  assume A: "File_path C f \<notin> seen \<and> buildSiteFromFile k C f s seen pr = Some (r, seen', pr')"
  then have B: "buildSiteFromFile k C f s seen pr = Some (r, seen', pr')" ..
  from build_marks [OF B] show "File_path C f \<in> seen'" .
  from B show "take 2 (issued pr pr') = [CallAdd (File_path C f), CallWrite (File_path C f)]"
  proof (cases rule: build_cases)
    case (seen n)
    with A show ?thesis by simp
  next
    case (dependencies_returns n u w deps w')
    from forEach_extends' [OF dependencies_returns(6)] obtain cs where
      "calls pr' = calls pr @ CallAdd (File_path C f) # CallWrite (File_path C f) #
                     CallDependencies (File_path C f) # cs"
      by (auto simp: extends_def)
    then show ?thesis by (simp add: issued_def)
  qed (simp_all add: issued_def)
next
  assume A: "File_path C f \<notin> seen \<and> File_write C f s (world pr) = (Inl e, w)"
  then show "\<exists>pr'. buildSiteFromFile (Suc n) C f s seen pr =
               Some (Inl (Error (''Failed to write file '' @ File_path C f @ '': '' @
                                  interpolate e)),
                     insert (File_path C f) seen, pr') \<and>
             issued pr pr' = [CallAdd (File_path C f), CallWrite (File_path C f)]"
    by (simp add: build_write_throws issued_def)
next
  assume A: "p \<in> seenB \<and> buildSiteFromFile m C g s seenB prB = Some (rB, seenC, prC)"
  then have "buildSiteFromFile m C g s seenB prB = Some (rB, seenC, prC)" ..
  then have E: "extends seenB prB seenC prC" by (rule build_extends)
  from A extends_subset [OF E] show "p \<in> seenC" by blast
  from A extends_issued(2,5) [OF E] show "CallWrite p \<notin> set (issued prB prC)"
    by (auto simp: set_writes [symmetric])
qed

text \<open>
  Claim C1. A call of the builder on a file whose path string is in the set returns at once:
  the set and the process are as before, so neither \<^verbatim>\<open>write\<close> nor \<^verbatim>\<open>dependencies\<close> was
  called. A call on a file whose path is not in the set first adds the path and then calls
  \<^verbatim>\<open>write\<close>: these are the first two calls it issues, and the path is in the set when the
  call is over, also when \<^verbatim>\<open>write\<close> throws and the call throws in turn. From then on no call
  of the builder, on whatever file, removes the path or issues a \<^verbatim>\<open>write\<close> for it. The set
  that a call leaves is the set that its caller goes on with: in a loop over dependencies,
  each dependency whose path was not in the set is written exactly once in the whole loop,
  whether that write throws or not and whatever files at the same path follow it; and in a
  call of the builder, and in a run of \<^verbatim>\<open>buildFromPath\<close>, no \<^verbatim>\<open>write\<close> of a path comes
  before or after another \<^verbatim>\<open>write\<close> of the same path.
\<close>

theorem seen_paths_are_skipped_and_marked_before_the_write:
  "(File_path C f \<in> seen \<longrightarrow>
      buildSiteFromFile (Suc n) C f s seen pr = Some (Inr (), seen, pr)) \<and>
   (File_path C f \<notin> seen \<and> buildSiteFromFile k C f s seen pr = Some (r, seen', pr') \<longrightarrow>
      File_path C f \<in> seen' \<and>
      take 2 (issued pr pr') = [CallAdd (File_path C f), CallWrite (File_path C f)]) \<and>
   (File_path C f \<notin> seen \<and> File_write C f s (world pr) = (Inl e, w) \<longrightarrow>
      (\<exists>pr'. buildSiteFromFile (Suc n) C f s seen pr =
               Some (Inl (Error (''Failed to write file '' @ File_path C f @ '': '' @
                                  interpolate e)),
                     insert (File_path C f) seen, pr') \<and>
             issued pr pr' = [CallAdd (File_path C f), CallWrite (File_path C f)])) \<and>
   (p \<in> seenB \<and> buildSiteFromFile m C g s seenB prB = Some (rB, seenC, prC) \<longrightarrow>
      p \<in> seenC \<and> CallWrite p \<notin> set (issued prB prC)) \<and>
   (forEach j C g s deps seenD prD = Some (seenE, prE) \<and> d \<in> set deps \<and>
    File_path C d \<notin> seenD \<longrightarrow>
      File_path C d \<in> seenE \<and>
      count_list (writes (issued prD prE)) (File_path C d) = 1) \<and>
   (buildSiteFromFile m C g s seenB prB = Some (rB, seenC, prC) \<and>
    issued prB prC = xs @ CallWrite q # ys \<longrightarrow>
      q \<in> seenC \<and> CallWrite q \<notin> set xs \<and> CallWrite q \<notin> set ys) \<and>
   (buildFromPath i H settings prF = Some (resG, prG) \<and>
    issued prF prG = xsG @ CallWrite qG # ysG \<longrightarrow>
      CallWrite qG \<notin> set xsG \<and> CallWrite qG \<notin> set ysG)"
proof -
  note G = guard_and_mark [of C f seen n s pr k r seen' pr' e w p seenB m g prB rB seenC prC]
  have 5: "forEach j C g s deps seenD prD = Some (seenE, prE) \<and> d \<in> set deps \<and>
    File_path C d \<notin> seenD \<longrightarrow>
      File_path C d \<in> seenE \<and>
      count_list (writes (issued prD prE)) (File_path C d) = 1"
    using forEach_writes_once [of j C g s deps seenD prD seenE prE d] by blast
  have 6: "buildSiteFromFile m C g s seenB prB = Some (rB, seenC, prC) \<and>
    issued prB prC = xs @ CallWrite q # ys \<longrightarrow>
      q \<in> seenC \<and> CallWrite q \<notin> set xs \<and> CallWrite q \<notin> set ys"
    using build_write_not_repeated [of m C g s seenB prB rB seenC prC xs q ys] by blast
  have 7: "buildFromPath i H settings prF = Some (resG, prG) \<and>
    issued prF prG = xsG @ CallWrite qG # ysG \<longrightarrow>
      CallWrite qG \<notin> set xsG \<and> CallWrite qG \<notin> set ysG"
    using buildFromPath_write_not_repeated [of i H settings prF resG prG xsG qG ysG] by blast
  from G 5 6 7 show ?thesis by blast
qed

text \<open>
  On the small site: the index page when it is already seen; the locked style sheet, first
  unseen and then met again at the mirror after its write has failed; the loop and the
  call for the gallery, where the mirror follows the locked style sheet and is not written;
  and a whole build.
\<close>

theorem seen_paths_are_skipped_and_marked_before_the_write_witness:
  "File_path demo_File Index \<in> {''/site/index.html''} \<and>
   buildSiteFromFile (Suc 0) demo_File Index 0 {''/site/index.html''} demo_process =
     Some (Inr (), {''/site/index.html''}, demo_process) \<and>
   File_path demo_File Locked \<notin> {} \<and>
   File_write demo_File Locked 0 (world demo_process) = (Inl (Other ''EACCES''), demo_memory) \<and>
   buildSiteFromFile (Suc 0) demo_File Locked 0 {} demo_process =
     Some (Inl (Error ''Failed to write file /site/locked.css: EACCES''),
           {''/site/locked.css''}, demo_locked_failed) \<and>
   take 2 (issued demo_process demo_locked_failed) =
     [CallAdd ''/site/locked.css'', CallWrite ''/site/locked.css''] \<and>
   ''/site/locked.css'' \<in> {''/site/locked.css''} \<and>
   buildSiteFromFile (Suc 0) demo_File Mirror 0 {''/site/locked.css''} demo_locked_failed =
     Some (Inr (), {''/site/locked.css''}, demo_locked_failed) \<and>
   CallWrite ''/site/locked.css'' \<notin> set (issued demo_locked_failed demo_locked_failed) \<and>
   File_path demo_File Mirror = ''/site/locked.css'' \<and>
   File_write demo_File Mirror 0 demo_memory =
     (Inr (), demo_memory\<lparr>files := [''/site/locked.css'']\<rparr>) \<and>
   forEach (Suc 0) demo_File Gallery 0 [Locked, Mirror, Style] {} demo_process =
     Some ({''/site/style.css'', ''/site/locked.css''}, demo_gallery_loop) \<and>
   Locked \<in> set [Locked, Mirror, Style] \<and>
   File_path demo_File Locked \<in> {''/site/style.css'', ''/site/locked.css''} \<and>
   count_list (writes (issued demo_process demo_gallery_loop)) ''/site/locked.css'' = 1 \<and>
   writes (issued demo_process demo_gallery_loop) = [''/site/locked.css'', ''/site/style.css''] \<and>
   buildSiteFromFile (Suc (Suc 0)) demo_File Gallery 0 {} demo_process =
     Some (Inr (), {''/site/style.css'', ''/site/locked.css'', ''/site/gallery.html''},
           demo_gallery_built) \<and>
   issued demo_process demo_gallery_built =
     [CallAdd ''/site/gallery.html'', CallWrite ''/site/gallery.html'',
      CallDependencies ''/site/gallery.html'', CallAdd ''/site/locked.css''] @
     CallWrite ''/site/locked.css'' #
     [CallAdd ''/site/style.css'', CallWrite ''/site/style.css'',
      CallDependencies ''/site/style.css''] \<and>
   CallWrite ''/site/locked.css'' \<notin>
     set [CallAdd ''/site/style.css'', CallWrite ''/site/style.css'',
          CallDependencies ''/site/style.css''] \<and>
   files (world demo_gallery_built) = [''/site/gallery.html'', ''/site/style.css''] \<and>
   buildFromPath 3 demo_modules 0 demo_process = Some (Inr (), demo_built) \<and>
   issued demo_process demo_built =
     [CallAdd ''/site/index.html'', CallWrite ''/site/index.html'',
      CallDependencies ''/site/index.html'',
      CallAdd ''/site/about.html'', CallWrite ''/site/about.html'',
      CallDependencies ''/site/about.html'',
      CallAdd ''/site/notes.md'', CallWrite ''/site/notes.md'',
      CallDependencies ''/site/notes.md'',
      CallAdd ''/site/locked.css''] @
     CallWrite ''/site/locked.css'' #
     [CallAdd ''/site/style.css'', CallWrite ''/site/style.css'',
      CallDependencies ''/site/style.css'']"
proof -
  note I = seen_paths_are_skipped_and_marked_before_the_write
    [where C = demo_File and f = Index and seen = "{''/site/index.html''}" and s = 0
       and n = 0 and pr = demo_process]
  note L = seen_paths_are_skipped_and_marked_before_the_write
    [where C = demo_File and f = Locked and seen = "{}" and s = 0 and n = 0 and k = "Suc 0"
       and pr = demo_process and r = "Inl (Error ''Failed to write file /site/locked.css: EACCES'')"
       and seen' = "{''/site/locked.css''}" and pr' = demo_locked_failed
       and e = "Other ''EACCES''" and w = demo_memory
       and p = "''/site/locked.css''" and seenB = "{''/site/locked.css''}" and m = "Suc 0"
       and g = Mirror and prB = demo_locked_failed and rB = "Inr ()"
       and seenC = "{''/site/locked.css''}" and prC = demo_locked_failed]
  note G = seen_paths_are_skipped_and_marked_before_the_write
    [where C = demo_File and s = 0 and g = Gallery and j = "Suc 0"
       and deps = "[Locked, Mirror, Style]" and seenD = "{}" and prD = demo_process
       and seenE = "{''/site/style.css'', ''/site/locked.css''}" and prE = demo_gallery_loop
       and d = Locked and m = "Suc (Suc 0)" and seenB = "{}" and prB = demo_process
       and rB = "Inr ()"
       and seenC = "{''/site/style.css'', ''/site/locked.css'', ''/site/gallery.html''}"
       and prC = demo_gallery_built
       and xs = "[CallAdd ''/site/gallery.html'', CallWrite ''/site/gallery.html'',
                  CallDependencies ''/site/gallery.html'', CallAdd ''/site/locked.css'']"
       and q = "''/site/locked.css''"
       and ys = "[CallAdd ''/site/style.css'', CallWrite ''/site/style.css'',
                  CallDependencies ''/site/style.css'']"
       and i = 3 and H = demo_modules and settings = 0 and prF = demo_process
       and resG = "Inr ()" and prG = demo_built
       and xsG = "[CallAdd ''/site/index.html'', CallWrite ''/site/index.html'',
          CallDependencies ''/site/index.html'',
          CallAdd ''/site/about.html'', CallWrite ''/site/about.html'',
          CallDependencies ''/site/about.html'',
          CallAdd ''/site/notes.md'', CallWrite ''/site/notes.md'',
          CallDependencies ''/site/notes.md'',
          CallAdd ''/site/locked.css'']"
       and qG = "''/site/locked.css''"
       and ysG = "[CallAdd ''/site/style.css'', CallWrite ''/site/style.css'',
                  CallDependencies ''/site/style.css'']"]
  have a1: "File_path demo_File Index \<in> {''/site/index.html''}" by (simp add: demo_File_def)
  from I [THEN conjunct1, THEN mp, OF a1]
  have a2: "buildSiteFromFile (Suc 0) demo_File Index 0 {''/site/index.html''} demo_process =
     Some (Inr (), {''/site/index.html''}, demo_process)" .
  have b1: "File_path demo_File Locked \<notin> {}" by simp
  have b2: "File_write demo_File Locked 0 (world demo_process) =
      (Inl (Other ''EACCES''), demo_memory)" by (simp add: demo_defs)
  have P: "File_path demo_File Locked = ''/site/locked.css''" by (simp add: demo_File_def)
  from L [THEN conjunct2, THEN conjunct2, THEN conjunct1, THEN mp, OF conjI, OF b1 b2]
  have b3: "buildSiteFromFile (Suc 0) demo_File Locked 0 {} demo_process =
     Some (Inl (Error ''Failed to write file /site/locked.css: EACCES''),
           {''/site/locked.css''}, demo_locked_failed)"
    by (auto simp: P demo_locked_failed_run)
  from L [THEN conjunct2, THEN conjunct1, THEN mp, OF conjI, OF b1 b3]
  have b4: "take 2 (issued demo_process demo_locked_failed) =
     [CallAdd ''/site/locked.css'', CallWrite ''/site/locked.css'']"
    by (simp add: P)
  have c1: "''/site/locked.css'' \<in> {''/site/locked.css''}" by simp
  have c2: "buildSiteFromFile (Suc 0) demo_File Mirror 0 {''/site/locked.css''}
      demo_locked_failed = Some (Inr (), {''/site/locked.css''}, demo_locked_failed)"
    by (simp add: build_seen demo_File_def)
  from L [THEN conjunct2, THEN conjunct2, THEN conjunct2, THEN conjunct1, THEN mp,
          OF conjI, OF c1 c2]
  have c3: "CallWrite ''/site/locked.css'' \<notin> set (issued demo_locked_failed demo_locked_failed)"
    by simp
  have d1: "File_path demo_File Mirror = ''/site/locked.css''" by (simp add: demo_File_def)
  have d2: "File_write demo_File Mirror 0 demo_memory =
     (Inr (), demo_memory\<lparr>files := [''/site/locked.css'']\<rparr>)"
    by (simp add: demo_File_def demo_memory_def)
  have e1: "Locked \<in> set [Locked, Mirror, Style]" by simp
  from G [THEN conjunct2, THEN conjunct2, THEN conjunct2, THEN conjunct2, THEN conjunct1,
          THEN mp, OF conjI, OF demo_gallery_loop_run conjI, OF e1 b1]
  have e2: "File_path demo_File Locked \<in> {''/site/style.css'', ''/site/locked.css''}"
    and e3: "count_list (writes (issued demo_process demo_gallery_loop)) ''/site/locked.css'' = 1"
    by (simp_all add: P)
  have e4: "writes (issued demo_process demo_gallery_loop) =
      [''/site/locked.css'', ''/site/style.css'']"
    by (simp add: issued_def demo_process_def demo_gallery_loop_def)
  from G [THEN conjunct2, THEN conjunct2, THEN conjunct2, THEN conjunct2, THEN conjunct2,
          THEN conjunct1, THEN mp, OF conjI, OF demo_gallery_run demo_gallery_issued]
  have f1: "CallWrite ''/site/locked.css'' \<notin>
     set [CallAdd ''/site/style.css'', CallWrite ''/site/style.css'',
          CallDependencies ''/site/style.css'']" by blast
  have f2: "files (world demo_gallery_built) = [''/site/gallery.html'', ''/site/style.css'']"
    by (simp add: demo_gallery_built_def)
  note g1 = G [THEN conjunct2, THEN conjunct2, THEN conjunct2, THEN conjunct2, THEN conjunct2,
          THEN conjunct2, THEN mp, OF conjI, OF demo_run demo_issued_split]
  from a1 a2 b1 b2 b3 b4 c1 c2 c3 d1 d2 demo_gallery_loop_run e1 e2 e3 e4 demo_gallery_run
    demo_gallery_issued f1 f2 demo_run demo_issued_split
  show ?thesis by (intro conjI)
qed

section \<open>Failures of a write\<close>

text \<open>One call, one run and one step of the loop when a write throws.\<close>

lemma write_failure_steps:
  "(File_path C f \<notin> seen \<and> File_write C f s (world pr) = (Inl e, w) \<longrightarrow>
      buildSiteFromFile (Suc n) C f s seen pr =
        Some (Inl (Error (''Failed to write file '' @ File_path C f @ '': '' @ interpolate e)),
              insert (File_path C f) seen,
              pr\<lparr>calls := calls pr @ [CallAdd (File_path C f), CallWrite (File_path C f)],
                 world := w,
                 console := console pr @
                   [ConsoleError [Str (''[build] Failed to write file '' @ File_path C f @ '':''),
                                  Thrown e]]\<rparr>)) \<and>
   (v = objects (world prA) settings \<and>
    writeRootFile H settings (join H (targetDir v) ''/index.html'') (world prA) = (Inr u, m) \<and>
    spread_targetDir settings (join H (targetDir v) ''/source'') m = (cfg, mA) \<and>
    readFile H (join H (sourceDir v) ''/index.html'') cfg mA = (Inr (Some dir), mB) \<and>
    File_path (File H) dir \<notin> set (seedPaths (sourceDir v) (targetDir v) (ignorePaths v)) \<and>
    File_write (File H) dir cfg mB = (Inl eA, wA) \<longrightarrow>
      (\<exists>prB. buildFromPath (Suc n) H settings prA =
           Some (Inl (Error (''Failed to write file '' @ File_path (File H) dir @ '': '' @
                             interpolate eA)), prB) \<and>
         issued prA prB = [CallAdd (File_path (File H) dir), CallWrite (File_path (File H) dir)] \<and>
         world prB = wA)) \<and>
   (buildSiteFromFile k C d s seenC prC = Some (Inl eC, seenD, prD) \<longrightarrow>
      forEach k C g s (d # rest) seenC prC =
        forEach k C g s rest seenD
          (prD\<lparr>console := console prD @
             [ConsoleError
                [Str (''[build] Failed to build dependency '' @ File_path C d
                        @ '' of '' @ File_path C g @ '':''),
                 Thrown eC]]\<rparr>))"
proof (intro conjI impI)
  assume "File_path C f \<notin> seen \<and> File_write C f s (world pr) = (Inl e, w)"
  then show "buildSiteFromFile (Suc n) C f s seen pr =
        Some (Inl (Error (''Failed to write file '' @ File_path C f @ '': '' @ interpolate e)),
              insert (File_path C f) seen,
              pr\<lparr>calls := calls pr @ [CallAdd (File_path C f), CallWrite (File_path C f)],
                 world := w,
                 console := console pr @
                   [ConsoleError [Str (''[build] Failed to write file '' @ File_path C f @ '':''),
                                  Thrown e]]\<rparr>)"
    by (simp add: build_write_throws)
next
  assume "v = objects (world prA) settings \<and>
    writeRootFile H settings (join H (targetDir v) ''/index.html'') (world prA) = (Inr u, m) \<and>
    spread_targetDir settings (join H (targetDir v) ''/source'') m = (cfg, mA) \<and>
    readFile H (join H (sourceDir v) ''/index.html'') cfg mA = (Inr (Some dir), mB) \<and>
    File_path (File H) dir \<notin> set (seedPaths (sourceDir v) (targetDir v) (ignorePaths v)) \<and>
    File_write (File H) dir cfg mB = (Inl eA, wA)"
  then show "\<exists>prB. buildFromPath (Suc n) H settings prA =
           Some (Inl (Error (''Failed to write file '' @ File_path (File H) dir @ '': '' @
                             interpolate eA)), prB) \<and>
         issued prA prB = [CallAdd (File_path (File H) dir), CallWrite (File_path (File H) dir)] \<and>
         world prB = wA"
    using buildFromPath_root_write_throws [of v prA settings H u m cfg mA dir mB eA wA n]
    by blast
next
  assume "buildSiteFromFile k C d s seenC prC = Some (Inl eC, seenD, prD)"
  then show "forEach k C g s (d # rest) seenC prC =
        forEach k C g s rest seenD
          (prD\<lparr>console := console prD @
             [ConsoleError
                [Str (''[build] Failed to build dependency '' @ File_path C d
                        @ '' of '' @ File_path C g @ '':''),
                 Thrown eC]]\<rparr>)"
    by (rule forEach_throws)
qed

text \<open>
  Claim C2, as the code has it. When the write of a file that is not yet in the set throws,
  the call of the builder for that file logs the thrown value and throws
  \<^verbatim>\<open>Error("Failed to write file <path>: <error>")\<close>; the dependencies of the file are not
  enumerated. When the file is the root that \<^verbatim>\<open>buildFromPath\<close> hands to the builder,
  \<^verbatim>\<open>buildFromPath\<close> throws this error to its own caller, and the two calls for the root are
  all that the run has issued: the build is aborted. When the file is a dependency, the
  loop of its parent catches the error, logs it, and goes on with the remaining
  dependencies: on a finite set of files the loop returns, the entry is on the console,
  the path of every remaining dependency is in the set, and each of them that had not been
  seen has been written since. A call of the builder throws only when the write of its own
  file has thrown, so a call whose own write succeeded returns normally whatever happens
  to the writes of its dependencies.
\<close>

theorem write_failure_throws_and_aborts_from_the_root:
  "(File_path C f \<notin> seen \<and> File_write C f s (world pr) = (Inl e, w) \<longrightarrow>
      buildSiteFromFile (Suc n) C f s seen pr =
        Some (Inl (Error (''Failed to write file '' @ File_path C f @ '': '' @ interpolate e)),
              insert (File_path C f) seen,
              pr\<lparr>calls := calls pr @ [CallAdd (File_path C f), CallWrite (File_path C f)],
                 world := w,
                 console := console pr @
                   [ConsoleError [Str (''[build] Failed to write file '' @ File_path C f @ '':''),
                                  Thrown e]]\<rparr>)) \<and>
   (v = objects (world prA) settings \<and>
    writeRootFile H settings (join H (targetDir v) ''/index.html'') (world prA) = (Inr u, m) \<and>
    spread_targetDir settings (join H (targetDir v) ''/source'') m = (cfg, mA) \<and>
    readFile H (join H (sourceDir v) ''/index.html'') cfg mA = (Inr (Some dir), mB) \<and>
    File_path (File H) dir \<notin> set (seedPaths (sourceDir v) (targetDir v) (ignorePaths v)) \<and>
    File_write (File H) dir cfg mB = (Inl eA, wA) \<longrightarrow>
      (\<exists>prB. buildFromPath (Suc n) H settings prA =
           Some (Inl (Error (''Failed to write file '' @ File_path (File H) dir @ '': '' @
                             interpolate eA)), prB) \<and>
         issued prA prB = [CallAdd (File_path (File H) dir), CallWrite (File_path (File H) dir)] \<and>
         world prB = wA)) \<and>
   (buildSiteFromFile k C d s seenC prC = Some (Inl eC, seenD, prD) \<longrightarrow>
      forEach k C g s (d # rest) seenC prC =
        forEach k C g s rest seenD
          (prD\<lparr>console := console prD @
             [ConsoleError
                [Str (''[build] Failed to build dependency '' @ File_path C d
                        @ '' of '' @ File_path C g @ '':''),
                 Thrown eC]]\<rparr>)) \<and>
   (buildSiteFromFile k C d s seenC prC = Some (Inl eC, seenD, prD) \<longrightarrow>
      File_path C d \<notin> seenC \<and>
      (\<exists>e0 w0. File_write C d s (world prC) = (Inl e0, w0) \<and>
         eC = Error (''Failed to write file '' @ File_path C d @ '': '' @ interpolate e0))) \<and>
   (buildSiteFromFile k C d s seenC prC = Some (Inl eC, seenD, prD) \<and>
    finite (File_path C ` F) \<and> closed_under_dependencies C s F \<and> set rest \<subseteq> F \<and>
    card (File_path C ` F - seenD) < k \<longrightarrow>
      (\<exists>seenE prE.
           forEach k C g s (d # rest) seenC prC = Some (seenE, prE) \<and>
           ConsoleError
             [Str (''[build] Failed to build dependency '' @ File_path C d
                     @ '' of '' @ File_path C g @ '':''),
              Thrown eC] \<in> set (console prE) \<and>
           (\<forall>x \<in> set rest.
              File_path C x \<in> seenE \<and>
              (File_path C x \<notin> seenD \<longrightarrow>
                 CallWrite (File_path C x) \<in> set (issued prD prE))))) \<and>
   (buildSiteFromFile j C g s seenG prG = Some (rG, seenH, prH) \<and>
    File_write C g s (world prG) = (Inr uG, wG) \<longrightarrow> rG = Inr ())"
proof -
  note O = write_failure_steps [of C f seen s pr e w n v prA settings H u m cfg mA dir mB eA wA
                    k d seenC prC eC seenD prD g rest]
  have 4: "buildSiteFromFile k C d s seenC prC = Some (Inl eC, seenD, prD) \<longrightarrow>
      File_path C d \<notin> seenC \<and>
      (\<exists>e0 w0. File_write C d s (world prC) = (Inl e0, w0) \<and>
         eC = Error (''Failed to write file '' @ File_path C d @ '': '' @ interpolate e0))"
    using build_throws_only_own_write [of k C d s seenC prC eC seenD prD] by blast
  have 5: "buildSiteFromFile k C d s seenC prC = Some (Inl eC, seenD, prD) \<and>
    finite (File_path C ` F) \<and> closed_under_dependencies C s F \<and> set rest \<subseteq> F \<and>
    card (File_path C ` F - seenD) < k \<longrightarrow>
      (\<exists>seenE prE.
           forEach k C g s (d # rest) seenC prC = Some (seenE, prE) \<and>
           ConsoleError
             [Str (''[build] Failed to build dependency '' @ File_path C d
                     @ '' of '' @ File_path C g @ '':''),
              Thrown eC] \<in> set (console prE) \<and>
           (\<forall>x \<in> set rest.
              File_path C x \<in> seenE \<and>
              (File_path C x \<notin> seenD \<longrightarrow>
                 CallWrite (File_path C x) \<in> set (issued prD prE))))"
    using forEach_after_throw [of k C d s seenC prC eC seenD prD F rest g] by blast
  have 6: "buildSiteFromFile j C g s seenG prG = Some (rG, seenH, prH) \<and>
    File_write C g s (world prG) = (Inr uG, wG) \<longrightarrow> rG = Inr ()"
    using build_returns_when_written [of j C g s seenG prG rG seenH prH uG wG] by blast
  from O 4 5 6 show ?thesis by blast
qed

text \<open>
  On the small site: the locked style sheet on its own and as the root of a build; the
  loop over the locked style sheet and the style sheet as dependencies of the index page,
  which writes the style sheet after the failure; and the gallery, which returns normally
  with the locked style sheet among its dependencies.
\<close>

theorem write_failure_throws_and_aborts_from_the_root_witness:
  "File_path demo_File Locked \<notin> {} \<and>
   File_write demo_File Locked 0 (world demo_process) = (Inl (Other ''EACCES''), demo_memory) \<and>
   buildSiteFromFile (Suc 0) demo_File Locked 0 {} demo_process =
     Some (Inl (Error ''Failed to write file /site/locked.css: EACCES''),
           {''/site/locked.css''}, demo_locked_failed) \<and>
   writeRootFile demo_locked_modules 0 (Path ''/site/docs/index.html'') (world demo_process) =
     (Inr (), demo_memory\<lparr>files := [''/site/docs/index.html'']\<rparr>) \<and>
   spread_targetDir 0 (Path ''/site/docs/source'')
       (demo_memory\<lparr>files := [''/site/docs/index.html'']\<rparr>) = (1, demo_locked_memory) \<and>
   readFile demo_locked_modules (Path ''/site/index.html'') 1 demo_locked_memory =
     (Inr (Some Locked), demo_locked_memory) \<and>
   File_path (File demo_locked_modules) Locked \<notin>
     set (seedPaths (Path ''/site'') (Path ''/site/docs'') (Some [''/site/drafts''])) \<and>
   File_write (File demo_locked_modules) Locked 1 demo_locked_memory =
     (Inl (Other ''EACCES''), demo_locked_memory) \<and>
   buildFromPath (Suc 0) demo_locked_modules 0 demo_process =
     Some (Inl (Error ''Failed to write file /site/locked.css: EACCES''), demo_locked_aborted) \<and>
   issued demo_process demo_locked_aborted =
     [CallAdd ''/site/locked.css'', CallWrite ''/site/locked.css''] \<and>
   buildSiteFromFile (Suc (Suc 0)) demo_File Locked 0 {} demo_process =
     Some (Inl (Error ''Failed to write file /site/locked.css: EACCES''),
           {''/site/locked.css''}, demo_locked_failed) \<and>
   finite (File_path demo_File ` {Style}) \<and>
   closed_under_dependencies demo_File 0 {Style} \<and>
   set [Style] \<subseteq> {Style} \<and>
   card (File_path demo_File ` {Style} - {''/site/locked.css''}) < Suc (Suc 0) \<and>
   forEach (Suc (Suc 0)) demo_File Index 0 (Locked # [Style]) {} demo_process =
     Some ({''/site/style.css'', ''/site/locked.css''}, demo_index_loop) \<and>
   ConsoleError
     [Str ''[build] Failed to build dependency /site/locked.css of /site/index.html:'',
      Thrown (Error ''Failed to write file /site/locked.css: EACCES'')]
     \<in> set (console demo_index_loop) \<and>
   File_path demo_File Style \<in> {''/site/style.css'', ''/site/locked.css''} \<and>
   File_path demo_File Style \<notin> {''/site/locked.css''} \<and>
   CallWrite ''/site/style.css'' \<in> set (issued demo_locked_failed demo_index_loop) \<and>
   files (world demo_index_loop) = [''/site/style.css''] \<and>
   File_write demo_File Gallery 0 (world demo_process) =
     (Inr (), demo_memory\<lparr>files := [''/site/gallery.html'']\<rparr>) \<and>
   buildSiteFromFile (Suc (Suc 0)) demo_File Gallery 0 {} demo_process =
     Some (Inr (), {''/site/style.css'', ''/site/locked.css'', ''/site/gallery.html''},
           demo_gallery_built) \<and>
   CallWrite ''/site/locked.css'' \<in> set (issued demo_process demo_gallery_built) \<and>
   CallWrite ''/site/style.css'' \<in> set (issued demo_process demo_gallery_built)"
proof -
  note T = write_failure_throws_and_aborts_from_the_root
    [where C = demo_File and f = Locked and seen = "{}" and s = 0 and pr = demo_process
       and e = "Other ''EACCES''" and w = demo_memory and n = 0
       and v = demo_settings and prA = demo_process and settings = 0
       and H = demo_locked_modules and u = "()"
       and m = "demo_memory\<lparr>files := [''/site/docs/index.html'']\<rparr>"
       and cfg = 1 and mA = demo_locked_memory and dir = Locked and mB = demo_locked_memory
       and eA = "Other ''EACCES''" and wA = demo_locked_memory]
  note U = write_failure_throws_and_aborts_from_the_root
    [where C = demo_File and f = Locked and seen = "{}" and s = 0 and pr = demo_process
       and e = "Other ''EACCES''" and w = demo_memory and n = "Suc 0"
       and k = "Suc (Suc 0)" and d = Locked and seenC = "{}" and prC = demo_process
       and eC = "Error ''Failed to write file /site/locked.css: EACCES''"
       and seenD = "{''/site/locked.css''}" and prD = demo_locked_failed
       and g = Index and rest = "[Style]" and F = "{Style}"]
  note V = write_failure_throws_and_aborts_from_the_root
    [where C = demo_File and s = 0 and j = "Suc (Suc 0)" and g = Gallery and seenG = "{}"
       and prG = demo_process and rG = "Inr ()"
       and seenH = "{''/site/style.css'', ''/site/locked.css'', ''/site/gallery.html''}"
       and prH = demo_gallery_built and uG = "()"
       and wG = "demo_memory\<lparr>files := [''/site/gallery.html'']\<rparr>"]
  have P: "File_path demo_File Locked = ''/site/locked.css''"
    "File_path demo_File Style = ''/site/style.css''"
    "File_path demo_File Index = ''/site/index.html''"
    by (simp_all add: demo_File_def)
  have 1: "File_path demo_File Locked \<notin> {}" by simp
  have 2: "File_write demo_File Locked 0 (world demo_process) =
      (Inl (Other ''EACCES''), demo_memory)"
    by (simp add: demo_defs)
  from T [THEN conjunct1, THEN mp, OF conjI, OF 1 2]
  have 3: "buildSiteFromFile (Suc 0) demo_File Locked 0 {} demo_process =
     Some (Inl (Error ''Failed to write file /site/locked.css: EACCES''),
           {''/site/locked.css''}, demo_locked_failed)"
    by (simp add: P demo_process_def demo_locked_failed_def)
  have 4: "writeRootFile demo_locked_modules 0 (Path ''/site/docs/index.html'')
      (world demo_process) = (Inr (), demo_memory\<lparr>files := [''/site/docs/index.html'']\<rparr>)"
    by (simp add: writeRootFile_def demo_locked_modules_def demo_modules_def demo_defs)
  have 5: "spread_targetDir 0 (Path ''/site/docs/source'')
       (demo_memory\<lparr>files := [''/site/docs/index.html'']\<rparr>) = (1, demo_locked_memory)"
    by (simp add: spread_targetDir_def demo_memory_def demo_locked_memory_def)
  have 6: "readFile demo_locked_modules (Path ''/site/index.html'') 1 demo_locked_memory =
     (Inr (Some Locked), demo_locked_memory)"
    by (simp add: demo_locked_modules_def demo_modules_def)
  have 7: "File_path (File demo_locked_modules) Locked \<notin>
     set (seedPaths (Path ''/site'') (Path ''/site/docs'') (Some [''/site/drafts'']))"
    by (simp add: demo_locked_modules_def demo_modules_def demo_File_def seedPaths_def)
  have 8: "File_write (File demo_locked_modules) Locked 1 demo_locked_memory =
     (Inl (Other ''EACCES''), demo_locked_memory)"
    by (simp add: demo_locked_modules_def demo_modules_def demo_File_def)
  have 9: "issued demo_process demo_locked_aborted =
     [CallAdd ''/site/locked.css'', CallWrite ''/site/locked.css'']"
    by (simp add: issued_def demo_process_def demo_locked_aborted_def)
  have 0: "demo_settings = objects (world demo_process) 0" by (simp add: demo_defs)
  have J: "join demo_locked_modules (targetDir demo_settings) ''/index.html'' =
      Path ''/site/docs/index.html''"
    "join demo_locked_modules (targetDir demo_settings) ''/source'' = Path ''/site/docs/source''"
    "join demo_locked_modules (sourceDir demo_settings) ''/index.html'' =
      Path ''/site/index.html''"
    "sourceDir demo_settings = Path ''/site''" "targetDir demo_settings = Path ''/site/docs''"
    "ignorePaths demo_settings = Some [''/site/drafts'']"
    by (simp_all add: demo_locked_modules_def demo_modules_def demo_settings_def)
  from T [THEN conjunct2, THEN conjunct1, THEN mp] 0 4 5 6 7 8 J
  obtain prB where
    "buildFromPath (Suc 0) demo_locked_modules 0 demo_process =
       Some (Inl (Error (''Failed to write file '' @ File_path (File demo_locked_modules) Locked @
                         '': '' @ interpolate (Other ''EACCES''))), prB)"
    by auto
  with demo_locked_run have 11: "buildFromPath (Suc 0) demo_locked_modules 0 demo_process =
     Some (Inl (Error ''Failed to write file /site/locked.css: EACCES''), demo_locked_aborted)"
    by simp
  from U [THEN conjunct1, THEN mp, OF conjI, OF 1 2]
  have 12: "buildSiteFromFile (Suc (Suc 0)) demo_File Locked 0 {} demo_process =
     Some (Inl (Error ''Failed to write file /site/locked.css: EACCES''),
           {''/site/locked.css''}, demo_locked_failed)"
    by (simp add: P demo_process_def demo_locked_failed_def)
  have 13: "finite (File_path demo_File ` {Style})" by simp
  have 14: "set [Style] \<subseteq> {Style}" by simp
  have 15: "card (File_path demo_File ` {Style} - {''/site/locked.css''}) < Suc (Suc 0)"
    by (simp add: P)
  from U [THEN conjunct2, THEN conjunct2, THEN conjunct2, THEN conjunct2, THEN conjunct1,
          THEN mp, OF conjI, OF 12 conjI, OF 13 conjI, OF demo_style_closed conjI, OF 14 15]
  obtain seenE prE where
    R: "forEach (Suc (Suc 0)) demo_File Index 0 (Locked # [Style]) {} demo_process =
          Some (seenE, prE)"
    and L: "ConsoleError
         [Str (''[build] Failed to build dependency '' @ File_path demo_File Locked
                 @ '' of '' @ File_path demo_File Index @ '':''),
          Thrown (Error ''Failed to write file /site/locked.css: EACCES'')]
        \<in> set (console prE)"
    and S: "\<forall>x \<in> set [Style].
              File_path demo_File x \<in> seenE \<and>
              (File_path demo_File x \<notin> {''/site/locked.css''} \<longrightarrow>
                 CallWrite (File_path demo_File x) \<in> set (issued demo_locked_failed prE))"
    by blast
  from R demo_index_loop_run have E: "seenE = {''/site/style.css'', ''/site/locked.css''}"
    "prE = demo_index_loop" by simp_all
  have 16: "File_path demo_File Style \<notin> {''/site/locked.css''}" by (simp add: P)
  from L E have 17: "ConsoleError
     [Str ''[build] Failed to build dependency /site/locked.css of /site/index.html:'',
      Thrown (Error ''Failed to write file /site/locked.css: EACCES'')]
     \<in> set (console demo_index_loop)" by (simp add: P)
  from S E 16 have 18: "File_path demo_File Style \<in> {''/site/style.css'', ''/site/locked.css''}"
    and 19: "CallWrite ''/site/style.css'' \<in> set (issued demo_locked_failed demo_index_loop)"
    by (simp_all add: P)
  have 20: "files (world demo_index_loop) = [''/site/style.css'']"
    by (simp add: demo_index_loop_def)
  have 21: "File_write demo_File Gallery 0 (world demo_process) =
     (Inr (), demo_memory\<lparr>files := [''/site/gallery.html'']\<rparr>)"
    by (simp add: demo_defs)
  note 22 = V [THEN conjunct2, THEN conjunct2, THEN conjunct2, THEN conjunct2, THEN conjunct2,
               THEN mp, OF conjI, OF demo_gallery_run 21]
  have 23: "CallWrite ''/site/locked.css'' \<in> set (issued demo_process demo_gallery_built)"
    "CallWrite ''/site/style.css'' \<in> set (issued demo_process demo_gallery_built)"
    by (simp_all add: demo_gallery_issued)
  from 1 2 3 4 5 6 7 8 11 9 12 13 demo_style_closed 14 15 demo_index_loop_run 17 18 16 19 20
    21 demo_gallery_run 23
  show ?thesis by (intro conjI)
qed

text \<open>
  The claim as it was stated, that a failed write of any file aborts the whole build and
  that no sibling is built after it, fails on the small site: the write of the locked style
  sheet throws, and yet the run returns normally, and the style sheet, the dependency after
  the locked one, is added and written after it.
\<close>

theorem write_failure_of_a_dependency_does_not_abort_counterexample:
  "File_write demo_File Locked 1 (world demo_built) = (Inl (Other ''EACCES''), world demo_built) \<and>
   buildFromPath 3 demo_modules 0 demo_process = Some (Inr (), demo_built) \<and>
   issued demo_process demo_built =
     [CallAdd ''/site/index.html'', CallWrite ''/site/index.html'',
      CallDependencies ''/site/index.html'',
      CallAdd ''/site/about.html'', CallWrite ''/site/about.html'',
      CallDependencies ''/site/about.html'',
      CallAdd ''/site/notes.md'', CallWrite ''/site/notes.md'',
      CallDependencies ''/site/notes.md'',
      CallAdd ''/site/locked.css'', CallWrite ''/site/locked.css'',
      CallAdd ''/site/style.css'', CallWrite ''/site/style.css'',
      CallDependencies ''/site/style.css''] \<and>
   files (world demo_built) =
     [''/site/docs/index.html'', ''/site/index.html'', ''/site/about.html'',
      ''/site/notes.md'', ''/site/style.css'']"
proof -
  have "File_write demo_File Locked 1 (world demo_built) =
      (Inl (Other ''EACCES''), world demo_built)"
    by (simp add: demo_File_def)
  moreover have "files (world demo_built) =
     [''/site/docs/index.html'', ''/site/index.html'', ''/site/about.html'',
      ''/site/notes.md'', ''/site/style.css'']"
    by (simp add: demo_built_def)
  ultimately show ?thesis using demo_run demo_issued by blast
qed

section \<open>Failures of the dependency enumeration\<close>

text \<open>
  Claim C3. When the write of a file that is not yet in the set succeeds and the enumeration
  of its dependencies throws, the call of the builder catches the thrown value, logs it with
  the path of the file, and returns normally: nothing is thrown to its caller. No call
  follows the failed enumeration, as for a file without dependencies, and a loop that had
  this file as its next dependency goes on with the dependencies after it.
\<close>

theorem dependencies_failure_is_caught:
  assumes "File_path C f \<notin> seen"
    and "File_write C f s (world pr) = (Inr u, w)"
    and "File_dependencies C f s w = (Inl e, w')"
  shows
    "let pr' = pr\<lparr>calls := calls pr @ [CallAdd (File_path C f), CallWrite (File_path C f),
                                       CallDependencies (File_path C f)],
                  world := w',
                  console := console pr @
                    [ConsoleError
                       [Str (''[build] Failed to get dependencies for '' @ File_path C f @ '':''),
                        Thrown e]]\<rparr>
     in buildSiteFromFile (Suc n) C f s seen pr = Some (Inr (), insert (File_path C f) seen, pr') \<and>
        forEach (Suc n) C g s (f # rest) seen pr =
          forEach (Suc n) C g s rest (insert (File_path C f) seen) pr'"
  using assms by (simp add: Let_def build_dependencies_throws)

text \<open>The notes of the small site: written, then their dependencies cannot be read.\<close>

theorem dependencies_failure_is_caught_witness:
  "File_path demo_File Notes \<notin> {} \<and>
   File_write demo_File Notes 0 (world demo_process) =
     (Inr (), demo_memory\<lparr>files := [''/site/notes.md'']\<rparr>) \<and>
   File_dependencies demo_File Notes 0 (demo_memory\<lparr>files := [''/site/notes.md'']\<rparr>) =
     (Inl (Error ''unreadable''), demo_memory\<lparr>files := [''/site/notes.md'']\<rparr>) \<and>
   buildSiteFromFile (Suc 0) demo_File Notes 0 {} demo_process =
     Some (Inr (), {''/site/notes.md''},
           \<lparr>console = [ConsoleError [Str ''[build] Failed to get dependencies for /site/notes.md:'',
                                     Thrown (Error ''unreadable'')]],
            calls = [CallAdd ''/site/notes.md'', CallWrite ''/site/notes.md'',
                     CallDependencies ''/site/notes.md''],
            world = demo_memory\<lparr>files := [''/site/notes.md'']\<rparr>\<rparr>)"
  using dependencies_failure_is_caught
    [of demo_File Notes "{}" 0 demo_process "()" "demo_memory\<lparr>files := [''/site/notes.md'']\<rparr>"
        "Error ''unreadable''" "demo_memory\<lparr>files := [''/site/notes.md'']\<rparr>" 0 About "[]"]
  by (simp add: demo_defs Let_def)

section \<open>Failures in the subtree of a dependency\<close>

text \<open>
  Claim C4. Let the loop over the dependencies of a file \<open>g\<close> have come to the dependency
  \<open>d\<close>, and let the recursive call for \<open>d\<close> throw \<open>e\<close>. Then the loop catches \<open>e\<close>, appends to
  the console one \<^verbatim>\<open>console.error\<close> entry that names the path of \<open>d\<close> and the path of \<open>g\<close>
  and carries \<open>e\<close>, and goes on with the dependencies after \<open>d\<close>. When the loop is over the
  entry is on the console, the path of every dependency after \<open>d\<close> is in the set, and each of
  them whose path was not in the set when \<open>d\<close> failed has been written since.
\<close>

theorem dependency_failure_is_isolated:
  assumes "forEach n C g s before seen pr = Some (seenA, prA)"
    and "buildSiteFromFile n C d s seenA prA = Some (Inl e, seenB, prB)"
  shows
    "let entry = ConsoleError
                   [Str (''[build] Failed to build dependency '' @ File_path C d @ '' of '' @
                         File_path C g @ '':''),
                    Thrown e]
     in forEach n C g s (before @ d # rest) seen pr =
          forEach n C g s rest seenB (prB\<lparr>console := console prB @ [entry]\<rparr>) \<and>
        (\<forall>seen' pr'. forEach n C g s (before @ d # rest) seen pr = Some (seen', pr') \<longrightarrow>
           entry \<in> set (console pr') \<and>
           (\<forall>x \<in> set rest.
              File_path C x \<in> seen' \<and>
              (File_path C x \<notin> seenB \<longrightarrow> CallWrite (File_path C x) \<in> set (issued prB pr'))))"
proof -
  define entry where "entry = ConsoleError
                   [Str (''[build] Failed to build dependency '' @ File_path C d @ '' of '' @
                         File_path C g @ '':''),
                    Thrown e]"
  have step: "forEach n C g s (before @ d # rest) seen pr =
          forEach n C g s rest seenB (prB\<lparr>console := console prB @ [entry]\<rparr>)"
    using forEach_append [OF assms(1), of "d # rest"] forEach_throws [OF assms(2), of g rest]
    by (simp add: entry_def)
  have rest: "entry \<in> set (console pr') \<and>
           (\<forall>x \<in> set rest.
              File_path C x \<in> seen' \<and>
              (File_path C x \<notin> seenB \<longrightarrow> CallWrite (File_path C x) \<in> set (issued prB pr')))"
    if R: "forEach n C g s (before @ d # rest) seen pr = Some (seen', pr')" for seen' pr'
  proof -
    from R step have F: "forEach n C g s rest seenB (prB\<lparr>console := console prB @ [entry]\<rparr>)
        = Some (seen', pr')" by simp
    from forEach_console' [OF F] have "entry \<in> set (console pr')" by auto
    moreover have "File_path C x \<in> seen'" if "x \<in> set rest" for x
      using forEach_marks [OF F that] .
    moreover have "CallWrite (File_path C x) \<in> set (issued prB pr')"
      if "x \<in> set rest" "File_path C x \<notin> seenB" for x
    proof -
      from forEach_extends' [OF F] have E: "extends seenB prB seen' pr'"
        by (simp add: extends_def)
      from forEach_marks [OF F that(1)] that(2) extends_issued(4) [OF E]
      have "File_path C x \<in> set (adds (issued prB pr'))" by blast
      with extends_issued(2) [OF E] show ?thesis by (simp add: set_writes [symmetric])
    qed
    ultimately show ?thesis by blast
  qed
  from step rest show ?thesis unfolding Let_def entry_def by blast
qed

text \<open>The index page of the small site with the locked style sheet before the style sheet.\<close>

theorem dependency_failure_is_isolated_witness:
  "forEach (Suc 0) demo_File Index 0 [] {} demo_process = Some ({}, demo_process) \<and>
   buildSiteFromFile (Suc 0) demo_File Locked 0 {} demo_process =
     Some (Inl (Error ''Failed to write file /site/locked.css: EACCES''),
           {''/site/locked.css''},
           \<lparr>console = [ConsoleError [Str ''[build] Failed to write file /site/locked.css:'',
                                     Thrown (Other ''EACCES'')]],
            calls = [CallAdd ''/site/locked.css'', CallWrite ''/site/locked.css''],
            world = demo_memory\<rparr>) \<and>
   forEach (Suc 0) demo_File Index 0 ([] @ Locked # [Style]) {} demo_process =
     Some ({''/site/style.css'', ''/site/locked.css''},
           \<lparr>console =
              [ConsoleError [Str ''[build] Failed to write file /site/locked.css:'',
                             Thrown (Other ''EACCES'')],
               ConsoleError
                 [Str ''[build] Failed to build dependency /site/locked.css of /site/index.html:'',
                  Thrown (Error ''Failed to write file /site/locked.css: EACCES'')]],
            calls = [CallAdd ''/site/locked.css'', CallWrite ''/site/locked.css'',
                     CallAdd ''/site/style.css'', CallWrite ''/site/style.css'',
                     CallDependencies ''/site/style.css''],
            world = demo_memory\<lparr>files := [''/site/style.css'']\<rparr>\<rparr>) \<and>
   File_path demo_File Style \<notin> {''/site/locked.css''} \<and>
   CallWrite (File_path demo_File Style) \<in> set (issued
      \<lparr>console = [ConsoleError [Str ''[build] Failed to write file /site/locked.css:'',
                                Thrown (Other ''EACCES'')]],
       calls = [CallAdd ''/site/locked.css'', CallWrite ''/site/locked.css''],
       world = demo_memory\<rparr>
      \<lparr>console =
              [ConsoleError [Str ''[build] Failed to write file /site/locked.css:'',
                             Thrown (Other ''EACCES'')],
               ConsoleError
                 [Str ''[build] Failed to build dependency /site/locked.css of /site/index.html:'',
                  Thrown (Error ''Failed to write file /site/locked.css: EACCES'')]],
            calls = [CallAdd ''/site/locked.css'', CallWrite ''/site/locked.css'',
                     CallAdd ''/site/style.css'', CallWrite ''/site/style.css'',
                     CallDependencies ''/site/style.css''],
            world = demo_memory\<lparr>files := [''/site/style.css'']\<rparr>\<rparr>)"
  using dependency_failure_is_isolated
    [where n = "Suc 0" and C = demo_File and g = Index and s = 0 and before = "[]"
       and seen = "{}" and pr = demo_process and seenA = "{}" and prA = demo_process
       and d = Locked and e = "Error ''Failed to write file /site/locked.css: EACCES''"
       and seenB = "{''/site/locked.css''}" and rest = "[Style]"
       and prB = "\<lparr>console = [ConsoleError [Str ''[build] Failed to write file /site/locked.css:'',
                                     Thrown (Other ''EACCES'')]],
            calls = [CallAdd ''/site/locked.css'', CallWrite ''/site/locked.css''],
            world = demo_memory\<rparr>"]
  by (simp add: demo_defs Let_def buildSiteFromFile.simps(2) issued_def insert_commute)

section \<open>No duplicate visits\<close>

text \<open>
  Claim C5. Among the calls that one call of the builder issues, and so among the calls of
  one whole run of \<^verbatim>\<open>buildFromPath\<close>, no path string is added to the set twice and no
  path string is written twice; a path that was in the set at the start is not added again.
\<close>

theorem no_path_is_added_or_written_twice:
  "(buildSiteFromFile n C f s seen pr = Some (r, seen', pr') \<longrightarrow>
      distinct (adds (issued pr pr')) \<and> distinct (writes (issued pr pr')) \<and>
      set (adds (issued pr pr')) \<inter> seen = {}) \<and>
   (buildFromPath n H settings prA = Some (res, prB) \<longrightarrow>
      distinct (adds (issued prA prB)) \<and> distinct (writes (issued prA prB)))"
proof (intro conjI impI)
  assume B: "buildSiteFromFile n C f s seen pr = Some (r, seen', pr')"
  from build_issued(1) [OF B] show "distinct (adds (issued pr pr'))" .
  from build_issued(2) [OF B] show "distinct (writes (issued pr pr'))" .
  from build_issued(3) [OF B] show "set (adds (issued pr pr')) \<inter> seen = {}" .
next
  assume R: "buildFromPath n H settings prA = Some (res, prB)"
  from buildFromPath_issued [OF R]
  show "distinct (adds (issued prA prB))"
  proof
    assume "issued prA prB = []"
    then show ?thesis by simp
  next
    assume "\<exists>dir cfg pr3 seen' pr4.
            buildSiteFromFile n (File H) dir cfg
              (set (seedPaths (sourceDir (objects (world prA) settings))
                     (targetDir (objects (world prA) settings))
                     (ignorePaths (objects (world prA) settings)))) pr3 = Some (res, seen', pr4) \<and>
            issued prA prB = issued pr3 pr4"
    then show ?thesis using build_issued(1) by fastforce
  qed
  from buildFromPath_issued [OF R]
  show "distinct (writes (issued prA prB))"
  proof
    assume "issued prA prB = []"
    then show ?thesis by simp
  next
    assume "\<exists>dir cfg pr3 seen' pr4.
            buildSiteFromFile n (File H) dir cfg
              (set (seedPaths (sourceDir (objects (world prA) settings))
                     (targetDir (objects (world prA) settings))
                     (ignorePaths (objects (world prA) settings)))) pr3 = Some (res, seen', pr4) \<and>
            issued prA prB = issued pr3 pr4"
    then show ?thesis using build_issued(2) by fastforce
  qed
qed

text \<open>The about page with the index page already seen, and a whole build of the small site.\<close>

theorem no_path_is_added_or_written_twice_witness:
  "buildSiteFromFile (Suc (Suc 0)) demo_File About 0 {''/site/index.html''} demo_process =
     Some (Inr (), {''/site/notes.md'', ''/site/about.html'', ''/site/index.html''},
           demo_about_built) \<and>
   distinct (adds (issued demo_process demo_about_built)) \<and>
   distinct (writes (issued demo_process demo_about_built)) \<and>
   set (adds (issued demo_process demo_about_built)) \<inter> {''/site/index.html''} = {} \<and>
   buildFromPath 3 demo_modules 0 demo_process = Some (Inr (), demo_built) \<and>
   adds (issued demo_process demo_built) =
     [''/site/index.html'', ''/site/about.html'', ''/site/notes.md'', ''/site/locked.css'',
      ''/site/style.css''] \<and>
   writes (issued demo_process demo_built) =
     [''/site/index.html'', ''/site/about.html'', ''/site/notes.md'', ''/site/locked.css'',
      ''/site/style.css''] \<and>
   distinct (adds (issued demo_process demo_built)) \<and>
   distinct (writes (issued demo_process demo_built))"
proof -
  note B = no_path_is_added_or_written_twice
    [where n = "Suc (Suc 0)" and C = demo_File and f = About and s = 0
       and seen = "{''/site/index.html''}" and pr = demo_process and r = "Inr ()"
       and seen' = "{''/site/notes.md'', ''/site/about.html'', ''/site/index.html''}"
       and pr' = demo_about_built, THEN conjunct1, THEN mp, OF demo_about']
  note D = no_path_is_added_or_written_twice
    [where n = 3 and H = demo_modules and settings = 0 and prA = demo_process
       and res = "Inr ()" and prB = demo_built, THEN conjunct2, THEN mp, OF demo_run]
  have A: "adds (issued demo_process demo_built) =
     [''/site/index.html'', ''/site/about.html'', ''/site/notes.md'', ''/site/locked.css'',
      ''/site/style.css'']" by (simp add: demo_issued)
  have W: "writes (issued demo_process demo_built) =
     [''/site/index.html'', ''/site/about.html'', ''/site/notes.md'', ''/site/locked.css'',
      ''/site/style.css'']" by (simp add: demo_issued)
  from demo_about' demo_run A W B D show ?thesis by (intro conjI) blast+
qed

section \<open>Cycles\<close>

text \<open>
  Claim C6. Let \<open>A\<close> depend on \<open>B\<close> and \<open>B\<close> on \<open>A\<close>, in a dependency graph whose files have
  finitely many path strings, and let the builder be called on \<open>A\<close> with enough depth for the
  paths not yet seen, neither path being in the set, and the write of \<open>A\<close> succeeding. Then
  the call returns, normally, and exactly one write was issued for the path of \<open>A\<close> and
  exactly one for the path of \<open>B\<close>.
\<close>

theorem cycle_terminates_and_builds_each_once:
  assumes fin: "finite (File_path C ` F)"
    and closed: "closed_under_dependencies C s F"
    and root: "A \<in> F"
    and unseen: "File_path C A \<notin> seen" "File_path C B \<notin> seen"
    and writable: "\<forall>w. \<exists>w'. File_write C A s w = (Inr (), w')"
    and AB: "\<forall>w. \<exists>deps w'. File_dependencies C A s w = (Inr deps, w') \<and> B \<in> set deps"
    and BA: "\<forall>w. \<exists>deps w'. File_dependencies C B s w = (Inr deps, w') \<and> A \<in> set deps"
    and fuel: "card (File_path C ` F - seen) < n"
  shows "\<exists>seen' pr'.
           buildSiteFromFile n C A s seen pr = Some (Inr (), seen', pr') \<and>
           count_list (writes (issued pr pr')) (File_path C A) = 1 \<and>
           count_list (writes (issued pr pr')) (File_path C B) = 1"
proof -
  from build_returns_Some [OF fin closed root fuel] obtain r seen' pr' where
    R: "buildSiteFromFile n C A s seen pr = Some (r, seen', pr')" by blast
  from build_extends [OF R] have E: "extends seen pr seen' pr'" .
  from R have "r = Inr () \<and> File_path C B \<in> seen'"
  proof (cases rule: build_cases)
    case (seen m)
    with unseen show ?thesis by simp
  next
    case (write_throws m e w)
    with writable show ?thesis by (metis Inl_Inr_False prod.inject)
  next
    case (dependencies_throws m u w e w')
    with AB show ?thesis by (metis Inl_Inr_False prod.inject)
  next
    case (dependencies_returns m u w deps w')
    from AB dependencies_returns(4) have "B \<in> set deps" by (metis Inr_inject prod.inject)
    from forEach_marks [OF dependencies_returns(6) this] dependencies_returns(5)
    show ?thesis by simp
  qed
  then have r: "r = Inr ()" and B: "File_path C B \<in> seen'" by simp_all
  from build_marks [OF R] have A: "File_path C A \<in> seen'" .
  from A B unseen extends_issued(4) [OF E]
  have "File_path C A \<in> set (adds (issued pr pr'))" "File_path C B \<in> set (adds (issued pr pr'))"
    by blast+
  with extends_issued(2,3) [OF E]
  have "count_list (writes (issued pr pr')) (File_path C A) = 1"
    "count_list (writes (issued pr pr')) (File_path C B) = 1"
    by (simp_all add: count_list_distinct)
  with R r show ?thesis by blast
qed

text \<open>
  The index page and the about page of the small site depend on each other. With every
  other path seen, two paths are left, and depth three is enough.
\<close>

theorem cycle_terminates_and_builds_each_once_witness:
  "finite (File_path demo_File ` demo_files) \<and>
   closed_under_dependencies demo_File 0 demo_files \<and>
   Index \<in> demo_files \<and>
   File_path demo_File Index \<notin>
     {''/site/locked.css'', ''/site/notes.md'', ''/site/drafts'', ''/site/docs/index.html'',
      ''/site/style.css''} \<and>
   File_path demo_File About \<notin>
     {''/site/locked.css'', ''/site/notes.md'', ''/site/drafts'', ''/site/docs/index.html'',
      ''/site/style.css''} \<and>
   File_write demo_File Index 0 demo_memory =
     (Inr (), demo_memory\<lparr>files := [''/site/index.html'']\<rparr>) \<and>
   File_dependencies demo_File Index 0 demo_memory =
     (Inr [About, Locked, Drafts, Output, Style], demo_memory) \<and>
   File_dependencies demo_File About 0 demo_memory = (Inr [Index, Notes], demo_memory) \<and>
   card (File_path demo_File ` demo_files -
      {''/site/locked.css'', ''/site/notes.md'', ''/site/drafts'', ''/site/docs/index.html'',
       ''/site/style.css''}) < 3 \<and>
   buildSiteFromFile 3 demo_File Index 0
      {''/site/locked.css'', ''/site/notes.md'', ''/site/drafts'', ''/site/docs/index.html'',
       ''/site/style.css''} demo_process =
     Some (Inr (),
       {''/site/about.html'', ''/site/index.html'',
        ''/site/locked.css'', ''/site/notes.md'', ''/site/drafts'', ''/site/docs/index.html'',
        ''/site/style.css''}, demo_cycle_built) \<and>
   count_list (writes (issued demo_process demo_cycle_built)) ''/site/index.html'' = 1 \<and>
   count_list (writes (issued demo_process demo_cycle_built)) ''/site/about.html'' = 1"
proof -
  let ?seen = "{''/site/locked.css'', ''/site/notes.md'', ''/site/drafts'',
                ''/site/docs/index.html'', ''/site/style.css''}"
  have fin: "finite (File_path demo_File ` demo_files)"
    by (simp add: demo_files_def)
  have root: "Index \<in> demo_files" by (simp add: demo_files_def)
  have unseen: "File_path demo_File Index \<notin> ?seen" "File_path demo_File About \<notin> ?seen"
    by (simp_all add: demo_File_def)
  have writable: "\<forall>w. \<exists>w'. File_write demo_File Index 0 w = (Inr (), w')"
    by (simp add: demo_File_def)
  have AB: "\<forall>w. \<exists>deps w'. File_dependencies demo_File Index 0 w = (Inr deps, w') \<and>
      About \<in> set deps"
    by (simp add: demo_File_def)
  have BA: "\<forall>w. \<exists>deps w'. File_dependencies demo_File About 0 w = (Inr deps, w') \<and>
      Index \<in> set deps"
    by (simp add: demo_File_def)
  from cycle_terminates_and_builds_each_once
    [OF fin demo_closed root unseen writable AB BA demo_cycle_card, of demo_process]
  obtain seen' pr' where
    "buildSiteFromFile 3 demo_File Index 0 ?seen demo_process = Some (Inr (), seen', pr')"
    and C: "count_list (writes (issued demo_process pr')) (File_path demo_File Index) = 1"
      "count_list (writes (issued demo_process pr')) (File_path demo_File About) = 1"
    by blast
  with demo_cycle_run have "pr' = demo_cycle_built" by simp
  with C have counts:
    "count_list (writes (issued demo_process demo_cycle_built)) ''/site/index.html'' = 1"
    "count_list (writes (issued demo_process demo_cycle_built)) ''/site/about.html'' = 1"
    by (simp_all add: demo_File_def)
  have W: "File_write demo_File Index 0 demo_memory =
     (Inr (), demo_memory\<lparr>files := [''/site/index.html'']\<rparr>)"
    by (simp add: demo_File_def demo_memory_def)
  have D: "File_dependencies demo_File Index 0 demo_memory =
     (Inr [About, Locked, Drafts, Output, Style], demo_memory)"
    "File_dependencies demo_File About 0 demo_memory = (Inr [Index, Notes], demo_memory)"
    by (simp_all add: demo_File_def)
  from fin demo_closed root unseen W D demo_cycle_card demo_cycle_run counts
  show ?thesis by blast
qed

section \<open>The TypeScript handler\<close>

text \<open>
  Claim C7. The TypeScript handler claims the extensions \<^verbatim>\<open>ts\<close> and \<^verbatim>\<open>tsx\<close> and no other,
  declares the one target \<^verbatim>\<open>js\<close>, and has one method, named \<^verbatim>\<open>js\<close> as its target is. The
  node that this method returns reads as the transform of the source, which is the output
  text of the transpilation of the source's text with module and target \<^verbatim>\<open>ESNext\<close>; it is
  derived from the source and lies at the source's path with the extension \<^verbatim>\<open>js\<close>. The
  factory yields a file object when the path exists and nothing when it does not.
\<close>

theorem TypeScriptFile_handler:
  "TypeScriptFile_filetypes = [''ts'', ''tsx''] \<and>
   TypeScriptFile_targets = [''js''] \<and>
   map fst (TypeScriptFile_methods E) = TypeScriptFile_targets \<and>
   map_of (TypeScriptFile_methods E) ''js'' = Some (TypeScriptFile_js E) \<and>
   DerivedNode_read (TypeScriptFile_js E this cfg) = tsToJs E this cfg \<and>
   tsToJs E this cfg =
     transpileModule E (SourceFile_text E this cfg)
       \<lparr>module = ModuleKind_ESNext, target = ScriptTarget_ESNext\<rparr> \<and>
   derivedFrom (TypeScriptFile_js E this cfg) = this \<and>
   location (TypeScriptFile_js E this cfg) = Path_replaceExtension E (path this) ''js'' \<and>
   TypeScriptFile_create E filePath cfg =
     (if Path_exists E filePath then Some \<lparr>path = filePath, cachedConfig = cfg\<rparr> else None)"
  by (simp add: TypeScriptFile_filetypes_def TypeScriptFile_targets_def
      TypeScriptFile_methods_def TypeScriptFile_js_def DerivedNode_read_def wrapFile_def
      tsToJs_def TypeScriptFile_create_def)

text \<open>A file system with one TypeScript file.\<close>

theorem TypeScriptFile_handler_witness:
  "DerivedNode_read
     (TypeScriptFile_js demo_typescript \<lparr>path = Path ''/site/app.ts'', cachedConfig = ()\<rparr> ()) =
     ''let x = 1;'' \<and>
   location
     (TypeScriptFile_js demo_typescript \<lparr>path = Path ''/site/app.ts'', cachedConfig = ()\<rparr> ()) =
     Path ''/site/app.js'' \<and>
   TypeScriptFile_create demo_typescript (Path ''/site/app.ts'') () =
     Some \<lparr>path = Path ''/site/app.ts'', cachedConfig = ()\<rparr> \<and>
   TypeScriptFile_create demo_typescript (Path ''/site/missing.ts'') () = None"
  using TypeScriptFile_handler
      [of demo_typescript "\<lparr>path = Path ''/site/app.ts'', cachedConfig = ()\<rparr>" "()"
          "Path ''/site/app.ts''"]
    TypeScriptFile_handler
      [of demo_typescript "\<lparr>path = Path ''/site/app.ts'', cachedConfig = ()\<rparr>" "()"
          "Path ''/site/missing.ts''"]
  by (simp add: demo_typescript_def)

section \<open>The seeded set\<close>

text \<open>
  Claim C8. A run of \<^verbatim>\<open>buildFromPath\<close> calls the builder at most once, and then with the set
  made of the seed paths, so that all calls of the run come from that call. The seed paths
  include every configured ignore path, the path of the target directory, and \<^verbatim>\<open>.git\<close> and
  \<^verbatim>\<open>node_modules\<close> under the source directory; for none of them does the run issue a
  \<^verbatim>\<open>write\<close> of a file. (The root file, which \<^verbatim>\<open>buildFromPath\<close> itself writes with
  \<^verbatim>\<open>writeString\<close> before it reads the source index, is no file of the graph.)
\<close>

theorem seeded_paths_are_never_written:
  assumes "buildFromPath n H settings pr = Some (res, pr')"
    and "v = objects (world pr) settings"
  shows
    "(issued pr pr' = [] \<or>
      (\<exists>dir cfg pr3 seen' pr4.
         buildSiteFromFile n (File H) dir cfg
           (set (seedPaths (sourceDir v) (targetDir v) (ignorePaths v))) pr3 =
           Some (res, seen', pr4) \<and>
         issued pr pr' = issued pr3 pr4)) \<and>
     (\<forall>p \<in> set (case ignorePaths v of None \<Rightarrow> [] | Some ps \<Rightarrow> ps) \<union>
            {Path_toString (targetDir v), Path_toString (sourceDir v) @ ''/.git'',
             Path_toString (sourceDir v) @ ''/node_modules''}.
        p \<in> set (seedPaths (sourceDir v) (targetDir v) (ignorePaths v)) \<and>
        CallWrite p \<notin> set (issued pr pr'))"
proof (intro conjI ballI)
  from buildFromPath_issued [OF assms(1)] assms(2)
  show "issued pr pr' = [] \<or>
      (\<exists>dir cfg pr3 seen' pr4.
         buildSiteFromFile n (File H) dir cfg
           (set (seedPaths (sourceDir v) (targetDir v) (ignorePaths v))) pr3 =
           Some (res, seen', pr4) \<and>
         issued pr pr' = issued pr3 pr4)" by simp
next
  fix p
  assume "p \<in> set (case ignorePaths v of None \<Rightarrow> [] | Some ps \<Rightarrow> ps) \<union>
            {Path_toString (targetDir v), Path_toString (sourceDir v) @ ''/.git'',
             Path_toString (sourceDir v) @ ''/node_modules''}"
  then show S: "p \<in> set (seedPaths (sourceDir v) (targetDir v) (ignorePaths v))"
    by (auto simp: seedPaths_def)
  with buildFromPath_seeded [OF assms(1), of p] assms(2)
  show "CallWrite p \<notin> set (issued pr pr')" by simp
qed

text \<open>
  The index page of the small site depends on the drafts, whose path the settings ignore.
\<close>

theorem seeded_paths_are_never_written_witness:
  "buildFromPath 3 demo_modules 0 demo_process = Some (Inr (), demo_built) \<and>
   demo_settings = objects (world demo_process) 0 \<and>
   File_dependencies demo_File Index 1 (world demo_built) =
     (Inr [About, Locked, Drafts, Output, Style], world demo_built) \<and>
   File_path demo_File Drafts = ''/site/drafts'' \<and>
   ignorePaths demo_settings = Some [''/site/drafts''] \<and>
   CallWrite ''/site/drafts'' \<notin> set (issued demo_process demo_built) \<and>
   CallWrite ''/site/docs'' \<notin> set (issued demo_process demo_built) \<and>
   CallWrite ''/site/.git'' \<notin> set (issued demo_process demo_built) \<and>
   CallWrite ''/site/node_modules'' \<notin> set (issued demo_process demo_built)"
proof -
  have V: "demo_settings = objects (world demo_process) 0"
    by (simp add: demo_defs)
  note T = seeded_paths_are_never_written [OF demo_run V, THEN conjunct2]
  have "CallWrite ''/site/drafts'' \<notin> set (issued demo_process demo_built)"
    using T by (simp add: demo_settings_def)
  moreover have "CallWrite ''/site/docs'' \<notin> set (issued demo_process demo_built)"
    using T by (simp add: demo_settings_def)
  moreover have "CallWrite ''/site/.git'' \<notin> set (issued demo_process demo_built)"
    using T by (simp add: demo_settings_def)
  moreover have "CallWrite ''/site/node_modules'' \<notin> set (issued demo_process demo_built)"
    using T by (simp add: demo_settings_def)
  moreover have "File_dependencies demo_File Index 1 (world demo_built) =
     (Inr [About, Locked, Drafts, Output, Style], world demo_built)"
    by (simp add: demo_File_def)
  moreover have "File_path demo_File Drafts = ''/site/drafts''"
    by (simp add: demo_File_def)
  moreover have "ignorePaths demo_settings = Some [''/site/drafts'']"
    by (simp add: demo_settings_def)
  ultimately show ?thesis using demo_run V by blast
qed

section \<open>The settings are not assigned to\<close>

text \<open>
  Claim C9. Provided that none of the imported operations assigns to the settings object at
  the reference \<open>r\<close>, a call of the builder with \<open>r\<close> as its settings and a run of
  \<^verbatim>\<open>buildFromPath\<close> on \<open>r\<close> both leave the object at \<open>r\<close> allocated and as it was. The
  settings with the output retargeted are a new object: the reference that the object
  literal yields differs from \<open>r\<close>, the new object is the old one but for \<^verbatim>\<open>targetDir\<close>, and
  the object at \<open>r\<close> is as before.
\<close>

theorem settings_are_not_mutated:
  assumes "leave_settings H r v"
  shows
    "(holds r v (world pr) \<and> buildSiteFromFile n (File H) f r seen pr = Some (res, seen', pr')
        \<longrightarrow> holds r v (world pr')) \<and>
     (holds r v (world prA) \<and> buildFromPath n H r prA = Some (resB, prB)
        \<longrightarrow> holds r v (world prB)) \<and>
     (holds r v m \<longrightarrow>
        fst (spread_targetDir r t m) \<noteq> r \<and>
        holds r v (snd (spread_targetDir r t m)) \<and>
        objects (snd (spread_targetDir r t m)) (fst (spread_targetDir r t m)) =
          v\<lparr>targetDir := t\<rparr>)"
proof (intro conjI impI)
  assume "holds r v (world pr) \<and>
    buildSiteFromFile n (File H) f r seen pr = Some (res, seen', pr')"
  then show "holds r v (world pr')" using build_holds [OF assms] by blast
next
  assume "holds r v (world prA) \<and> buildFromPath n H r prA = Some (resB, prB)"
  then show "holds r v (world prB)" using buildFromPath_holds [OF assms] by blast
next
  assume M: "holds r v m"
  from spread_targetDir_holds(1) [OF M] show "fst (spread_targetDir r t m) \<noteq> r" .
  from spread_targetDir_holds(2) [OF M] show "holds r v (snd (spread_targetDir r t m))" .
  from spread_targetDir_holds(3) [OF M]
  show "objects (snd (spread_targetDir r t m)) (fst (spread_targetDir r t m)) =
          v\<lparr>targetDir := t\<rparr>" .
qed

text \<open>
  The operations of the small site touch the files only. After the build the settings at
  reference 0 still target \<^verbatim>\<open>/site/docs\<close>; the copy at reference 1 targets the
  subdirectory.
\<close>

theorem settings_are_not_mutated_witness:
  "leave_settings demo_modules 0 demo_settings \<and>
   holds 0 demo_settings (world demo_process) \<and>
   buildSiteFromFile (Suc (Suc 0)) (File demo_modules) About 0 {''/site/index.html''}
       demo_process =
     Some (Inr (), {''/site/notes.md'', ''/site/about.html'', ''/site/index.html''},
           demo_about_built) \<and>
   holds 0 demo_settings (world demo_about_built) \<and>
   buildFromPath 3 demo_modules 0 demo_process = Some (Inr (), demo_built) \<and>
   holds 0 demo_settings (world demo_built) \<and>
   spread_targetDir 0 (Path ''/site/docs/source'') demo_memory =
     (1, demo_memory\<lparr>objects := (objects demo_memory)
                         (1 := demo_settings\<lparr>targetDir := Path ''/site/docs/source''\<rparr>),
                     next_ref := 2\<rparr>) \<and>
   targetDir (objects (world demo_built) 0) = Path ''/site/docs'' \<and>
   targetDir (objects (world demo_built) 1) = Path ''/site/docs/source''"
proof -
  note T = settings_are_not_mutated [OF demo_leave_settings]
  have H0: "holds 0 demo_settings (world demo_process)"
    by (simp add: holds_def demo_defs)
  have A: "buildSiteFromFile (Suc (Suc 0)) (File demo_modules) About 0 {''/site/index.html''}
       demo_process =
     Some (Inr (), {''/site/notes.md'', ''/site/about.html'', ''/site/index.html''},
           demo_about_built)"
    using demo_about' by (simp add: demo_modules_def)
  from T [THEN conjunct1, THEN mp, OF conjI, OF H0 A]
  have 1: "holds 0 demo_settings (world demo_about_built)" .
  from T [THEN conjunct2, THEN conjunct1, THEN mp, OF conjI, OF H0 demo_run]
  have 2: "holds 0 demo_settings (world demo_built)" .
  have 3: "spread_targetDir 0 (Path ''/site/docs/source'') demo_memory =
     (1, demo_memory\<lparr>objects := (objects demo_memory)
                         (1 := demo_settings\<lparr>targetDir := Path ''/site/docs/source''\<rparr>),
                     next_ref := 2\<rparr>)"
    by (simp add: spread_targetDir_def demo_memory_def)
  have 4: "targetDir (objects (world demo_built) 0) = Path ''/site/docs''"
    "targetDir (objects (world demo_built) 1) = Path ''/site/docs/source''"
    by (simp_all add: demo_built_def demo_settings_def)
  from demo_leave_settings H0 A 1 demo_run 2 3 4 show ?thesis by blast
qed

section \<open>The seeded counterparts in HTML\<close>

text \<open>
  Claim C10. The seed paths of \<^verbatim>\<open>buildFromPath\<close> also include every configured ignore path
  with \<^verbatim>\<open>.html\<close> appended, the path of the target directory with \<^verbatim>\<open>.html\<close> appended, and
  the path of the target directory with \<^verbatim>\<open>/index.html\<close> appended; for none of them does the
  run issue a \<^verbatim>\<open>write\<close> of a file.
\<close>

theorem html_variants_are_seeded_too:
  assumes "buildFromPath n H settings pr = Some (res, pr')"
    and "v = objects (world pr) settings"
  shows
    "\<forall>p \<in> (\<lambda>q. q @ ''.html'') ` set (case ignorePaths v of None \<Rightarrow> [] | Some ps \<Rightarrow> ps) \<union>
            {Path_toString (targetDir v) @ ''.html'',
             Path_toString (targetDir v) @ ''/index.html''}.
        p \<in> set (seedPaths (sourceDir v) (targetDir v) (ignorePaths v)) \<and>
        CallWrite p \<notin> set (issued pr pr')"
proof (intro conjI ballI)
  fix p
  assume "p \<in> (\<lambda>q. q @ ''.html'') ` set (case ignorePaths v of None \<Rightarrow> [] | Some ps \<Rightarrow> ps) \<union>
            {Path_toString (targetDir v) @ ''.html'',
             Path_toString (targetDir v) @ ''/index.html''}"
  then show S: "p \<in> set (seedPaths (sourceDir v) (targetDir v) (ignorePaths v))"
    by (auto simp: seedPaths_def)
  with buildFromPath_seeded [OF assms(1), of p] assms(2)
  show "CallWrite p \<notin> set (issued pr pr')" by simp
qed

text \<open>
  The index page of the small site depends on a file at the path of the root file in the
  target directory.
\<close>

theorem html_variants_are_seeded_too_witness:
  "buildFromPath 3 demo_modules 0 demo_process = Some (Inr (), demo_built) \<and>
   demo_settings = objects (world demo_process) 0 \<and>
   File_dependencies demo_File Index 1 (world demo_built) =
     (Inr [About, Locked, Drafts, Output, Style], world demo_built) \<and>
   File_path demo_File Output = ''/site/docs/index.html'' \<and>
   CallWrite ''/site/docs/index.html'' \<notin> set (issued demo_process demo_built) \<and>
   CallWrite ''/site/docs.html'' \<notin> set (issued demo_process demo_built) \<and>
   CallWrite ''/site/drafts.html'' \<notin> set (issued demo_process demo_built)"
proof -
  have V: "demo_settings = objects (world demo_process) 0"
    by (simp add: demo_defs)
  note T = html_variants_are_seeded_too [OF demo_run V]
  have "CallWrite ''/site/docs/index.html'' \<notin> set (issued demo_process demo_built)"
    using T by (simp add: demo_settings_def)
  moreover have "CallWrite ''/site/docs.html'' \<notin> set (issued demo_process demo_built)"
    using T by (simp add: demo_settings_def)
  moreover have "CallWrite ''/site/drafts.html'' \<notin> set (issued demo_process demo_built)"
    using T by (simp add: demo_settings_def)
  moreover have "File_dependencies demo_File Index 1 (world demo_built) =
     (Inr [About, Locked, Drafts, Output, Style], world demo_built)"
    by (simp add: demo_File_def)
  moreover have "File_path demo_File Output = ''/site/docs/index.html''"
    by (simp add: demo_File_def)
  ultimately show ?thesis using demo_run V by blast
qed

end
